theory Spec2Isabelle
  imports Complex_Main
begin

section \<open>Numbers and the threshold table\<close>

text \<open>
  A JavaScript number is a finite value, one of the two infinities, or NaN. The finite
  values are embedded in the reals; the code below only compares numbers with constants
  and stores constants, so no rounding takes part.
\<close>

datatype number = Num real | PosInf | NegInf | NaN

text \<open>The comparison \<^verbatim>\<open>a >= b\<close>: false as soon as one side is NaN.\<close>

fun ge :: "number \<Rightarrow> number \<Rightarrow> bool" where
  "ge NaN _ = False"
| "ge _ NaN = False"
| "ge (Num a) (Num b) = (b \<le> a)"
| "ge PosInf _ = True"
| "ge _ NegInf = True"
| "ge (Num a) PosInf = False"
| "ge NegInf (Num b) = False"
| "ge NegInf PosInf = False"

text \<open>The comparison \<^verbatim>\<open>a < b\<close>.\<close>

fun lt :: "number \<Rightarrow> number \<Rightarrow> bool" where
  "lt NaN _ = False"
| "lt _ NaN = False"
| "lt (Num a) (Num b) = (a < b)"
| "lt PosInf _ = False"
| "lt _ NegInf = False"
| "lt (Num a) PosInf = True"
| "lt NegInf (Num b) = True"
| "lt NegInf PosInf = True"

text \<open>\<^verbatim>\<open>types/index.ts\<close>: \<^verbatim>\<open>ZoomScale\<close> and \<^verbatim>\<open>ScaleThresholds\<close>.\<close>

datatype ZoomScale = Sphere | Stadium | Detail

record ScaleThresholds =
  min_v :: number
  max_v :: number

text \<open>
  \<^verbatim>\<open>utils/constants.ts\<close>: \<^verbatim>\<open>SCALE_THRESHOLDS\<close>, an object with one entry per
  scale name, read here as a function of the name.
\<close>

fun SCALE_THRESHOLDS :: "ZoomScale \<Rightarrow> ScaleThresholds" where
  "SCALE_THRESHOLDS Sphere = \<lparr>min_v = Num 2500, max_v = PosInf\<rparr>"
| "SCALE_THRESHOLDS Stadium = \<lparr>min_v = Num 500, max_v = Num 2500\<rparr>"
| "SCALE_THRESHOLDS Detail = \<lparr>min_v = Num 1, max_v = Num 500\<rparr>"

section \<open>The scale classifier\<close>

text \<open>
  Lines 267 to 274 of \<^verbatim>\<open>updateScaleBasedVisibility\<close> in \<^verbatim>\<open>StadiumApp.ts\<close>:
  \<^verbatim>\<open>
    let newScale: ZoomScale = this.appState.currentZoomScale;
    if (distance >= SCALE_THRESHOLDS.sphere.min) {
      newScale = 'sphere';
    } else if (distance >= SCALE_THRESHOLDS.stadium.min) {
      newScale = 'stadium';
    } else {
      newScale = 'detail';
    }
  \<close>
  Every branch assigns \<^verbatim>\<open>newScale\<close>, so its initial value never survives and the
  result depends on the distance alone.
\<close>

definition classify :: "number \<Rightarrow> ZoomScale" where
  "classify distance =
     (if ge distance (min_v (SCALE_THRESHOLDS Sphere)) then Sphere
      else if ge distance (min_v (SCALE_THRESHOLDS Stadium)) then Stadium
      else Detail)"

text \<open>
  The classifier as the specification words it: the bands are tried in the order sphere,
  stadium, detail and the first one whose interval, closed at \<open>min\<close> and open at
  \<open>max\<close>, holds the distance is returned; when none does, the first band in that order
  whose \<open>min\<close> is at most the distance is returned. Nothing is said for a distance below
  every \<open>min\<close>, hence the option.
\<close>

definition bands :: "ZoomScale list" where
  "bands = [Sphere, Stadium, Detail]"

definition band_contains :: "number \<Rightarrow> ZoomScale \<Rightarrow> bool" where
  "band_contains distance s =
     (ge distance (min_v (SCALE_THRESHOLDS s)) \<and> lt distance (max_v (SCALE_THRESHOLDS s)))"

definition band_min_le :: "number \<Rightarrow> ZoomScale \<Rightarrow> bool" where
  "band_min_le distance s = ge distance (min_v (SCALE_THRESHOLDS s))"

definition classify_spec :: "number \<Rightarrow> ZoomScale option" where
  "classify_spec distance =
     (case find (band_contains distance) bands of
        Some s \<Rightarrow> Some s
      | None \<Rightarrow> find (band_min_le distance) bands)"

section \<open>Scene objects and the animation engine\<close>

type_synonym vec3 = "real \<times> real \<times> real"

text \<open>\<^verbatim>\<open>utils/constants.ts\<close>: \<^verbatim>\<open>CAMERA_POSITIONS\<close> and \<^verbatim>\<open>ANIMATION_DURATIONS.INTRO_ZOOM\<close>.\<close>

definition SPHERE_START :: vec3 where
  "SPHERE_START = (0, 0, 4000)"

definition DETAIL_END :: vec3 where
  "DETAIL_END = (19.4319229067779, 9.883097359294862, 21.532109433098107)"

definition INTRO_ZOOM :: real where
  "INTRO_ZOOM = 5.0"

text \<open>
  The parts of the three.js objects that the modelled methods read or write: the camera
  position, the three input switches of the orbit controls, the visibility flags and
  material opacities of the stadium model, the scale of the sphere group and the
  \<^verbatim>\<open>opacity\<close> property that the sphere tween puts on it (undefined before), the
  intensity of each floodlight. A mesh
  whose \<^verbatim>\<open>material\<close> is a single material has a list of one, a mesh without material
  the empty list. \<^verbatim>\<open>meshes\<close> lists the descendants of the stadium with \<^verbatim>\<open>isMesh\<close>
  in the order \<^verbatim>\<open>traverse\<close> visits them.
\<close>

record Camera =
  position :: vec3

record Controls =
  enableRotate :: bool
  enableZoom :: bool
  enablePan :: bool

record Material =
  opacity :: real

record Mesh =
  mesh_visible :: bool
  material :: "Material list"

record Object3D =
  visible :: bool
  meshes :: "Mesh list"

record SphereComponent =
  scale :: vec3
  group_opacity :: "real option"

record LightingSystem =
  floodlights :: "real list"

text \<open>
  The animation engine is the global \<^verbatim>\<open>gsap\<close>, which the code tests with
  \<^verbatim>\<open>typeof gsap !== 'undefined'\<close>. A call \<^verbatim>\<open>gsap.to(target, vars)\<close> is recorded as
  an event with the target, the animated properties and their end values, the duration,
  the easing and the callback it carries. A call of one of the three visibility methods
  of the scene objects is recorded too, with the duration its parameter holds once the
  default has been applied.
\<close>

datatype Target =
  SphereGroup | SphereGroupScale | StadiumMaterial nat nat | Floodlight nat | CameraPosition

datatype Ease = Power1InOut | Power2InOut

datatype Callback = NoCallback | SphereOnUpdate bool | IntroOnComplete

record Tween =
  tw_target :: Target
  tw_vars :: "(string \<times> real) list"
  tw_duration :: real
  tw_ease :: Ease
  tw_callback :: Callback

datatype Event =
  SphereUpdateVisibility bool real
| UpdateStadiumVisibility bool real
| UpdateFloodlightIntensity bool real
| GsapTo Tween

text \<open>
  \<^verbatim>\<open>Sphere.updateVisibility(visible, duration = 0.8)\<close>: two tweens when the engine is
  there, nothing otherwise. The first argument of the model says whether \<^verbatim>\<open>gsap\<close> is
  defined; an omitted duration is \<open>None\<close>.
\<close>

definition Sphere_updateVisibility :: "bool \<Rightarrow> bool \<Rightarrow> real option \<Rightarrow> Event list" where
  "Sphere_updateVisibility engine vis duration_arg =
     (let dur = (case duration_arg of None \<Rightarrow> 0.8 | Some t \<Rightarrow> t) in
      SphereUpdateVisibility vis dur #
      (if engine then
         [GsapTo \<lparr>tw_target = SphereGroup,
                  tw_vars = [(''opacity'', if vis then 1.0 else 0.0)],
                  tw_duration = dur, tw_ease = Power2InOut,
                  tw_callback = SphereOnUpdate vis\<rparr>,
          GsapTo \<lparr>tw_target = SphereGroupScale,
                  tw_vars = [(''x'', if vis then 1.0 else 0.8),
                             (''y'', if vis then 1.0 else 0.8),
                             (''z'', if vis then 1.0 else 0.8)],
                  tw_duration = dur, tw_ease = Power2InOut,
                  tw_callback = NoCallback\<rparr>]
       else []))"

text \<open>
  \<^verbatim>\<open>StadiumLoader.updateStadiumVisibility(stadium, visible, duration = 0.8)\<close>. The inner
  loop \<^verbatim>\<open>materials.forEach\<close> over the materials of mesh \<open>i\<close>, from material \<open>j\<close> on:
  showing fades the opacity to 1 through the engine, or assigns 1 without it; hiding
  assigns 0 at once.
\<close>

fun fadeMaterials ::
  "bool \<Rightarrow> bool \<Rightarrow> real \<Rightarrow> nat \<Rightarrow> nat \<Rightarrow> Material list \<Rightarrow> Material list \<times> Event list" where
  "fadeMaterials engine vis dur i j [] = ([], [])"
| "fadeMaterials engine vis dur i j (mat # mats) =
     (let rest = fadeMaterials engine vis dur i (Suc j) mats in
      if vis then
        (if engine then
           (mat # fst rest,
            GsapTo \<lparr>tw_target = StadiumMaterial i j, tw_vars = [(''opacity'', 1.0)],
                    tw_duration = dur, tw_ease = Power2InOut,
                    tw_callback = NoCallback\<rparr> # snd rest)
         else (mat\<lparr>opacity := 1.0\<rparr> # fst rest, snd rest))
      else (mat\<lparr>opacity := 0.0\<rparr> # fst rest, snd rest))"

text \<open>The outer loop \<^verbatim>\<open>stadium.traverse\<close> over the meshes, from mesh \<open>i\<close> on.\<close>

fun traverseMeshes ::
  "bool \<Rightarrow> bool \<Rightarrow> real \<Rightarrow> nat \<Rightarrow> Mesh list \<Rightarrow> Mesh list \<times> Event list" where
  "traverseMeshes engine vis dur i [] = ([], [])"
| "traverseMeshes engine vis dur i (m # ms) =
     (let faded = fadeMaterials engine vis dur i 0 (material m);
          rest = traverseMeshes engine vis dur (Suc i) ms
      in (m\<lparr>mesh_visible := vis, material := fst faded\<rparr> # fst rest, snd faded @ snd rest))"

definition updateStadiumVisibility ::
  "bool \<Rightarrow> Object3D \<Rightarrow> bool \<Rightarrow> real option \<Rightarrow> Object3D \<times> Event list" where
  "updateStadiumVisibility engine st vis duration_arg =
     (let dur = (case duration_arg of None \<Rightarrow> 0.8 | Some t \<Rightarrow> t);
          walked = traverseMeshes engine vis dur 0 (meshes st)
      in (st\<lparr>visible := vis, meshes := fst walked\<rparr>,
          UpdateStadiumVisibility vis dur # snd walked))"

text \<open>
  \<^verbatim>\<open>LightingSystem.updateFloodlightIntensity(isDetailMode, duration = 0.8)\<close>: each
  floodlight is ramped to 8 or 2 through the engine, or assigned that value without it.
\<close>

fun rampFloodlights ::
  "bool \<Rightarrow> bool \<Rightarrow> real \<Rightarrow> nat \<Rightarrow> real list \<Rightarrow> real list \<times> Event list" where
  "rampFloodlights engine isDetailMode dur i [] = ([], [])"
| "rampFloodlights engine isDetailMode dur i (light # lights) =
     (let rest = rampFloodlights engine isDetailMode dur (Suc i) lights in
      if engine then
        (light # fst rest,
         GsapTo \<lparr>tw_target = Floodlight i,
                 tw_vars = [(''intensity'', if isDetailMode then 8.0 else 2.0)],
                 tw_duration = dur, tw_ease = Power2InOut,
                 tw_callback = NoCallback\<rparr> # snd rest)
      else ((if isDetailMode then 8.0 else 2.0) # fst rest, snd rest))"

definition updateFloodlightIntensity ::
  "bool \<Rightarrow> LightingSystem \<Rightarrow> bool \<Rightarrow> real option \<Rightarrow> LightingSystem \<times> Event list" where
  "updateFloodlightIntensity engine ls isDetailMode duration_arg =
     (let dur = (case duration_arg of None \<Rightarrow> 0.8 | Some t \<Rightarrow> t);
          ramped = rampFloodlights engine isDetailMode dur 0 (floodlights ls)
      in (ls\<lparr>floodlights := fst ramped\<rparr>,
          UpdateFloodlightIntensity isDetailMode dur # snd ramped))"

section \<open>The application state\<close>

text \<open>
  \<^verbatim>\<open>AppState\<close> of \<^verbatim>\<open>types/index.ts\<close>, the fields of \<^verbatim>\<open>SceneElements\<close> that the
  modelled methods use (each may be undefined), and the fields of the class
  \<^verbatim>\<open>StadiumApp\<close>. The record of the application also holds what lies outside the
  object and matters to it: whether the global \<^verbatim>\<open>gsap\<close> is defined, and the events
  issued so far, oldest first.
\<close>

record AppState =
  currentZoomScale :: ZoomScale
  sphereVisible :: bool
  stadiumTextVisible :: bool
  stadiumDetailVisible :: bool
  hasSeenIntroSequence :: bool
  isAnimationPlaying :: bool
  isTransitioning :: bool

record SceneElements =
  camera :: "Camera option"
  controls :: "Controls option"
  stadium :: "Object3D option"

record StadiumApp =
  sceneElements :: SceneElements
  appState :: AppState
  sphere :: "SphereComponent option"
  lightingSystem :: "LightingSystem option"
  gsap :: bool
  trace :: "Event list"

datatype Error = TypeError

text \<open>The initialiser of the field \<^verbatim>\<open>appState\<close>.\<close>

definition initialAppState :: AppState where
  "initialAppState =
     \<lparr>currentZoomScale = Sphere, sphereVisible = True, stadiumTextVisible = False,
      stadiumDetailVisible = False, hasSeenIntroSequence = False,
      isAnimationPlaying = True, isTransitioning = False\<rparr>"

section \<open>The visibility orchestrator\<close>

text \<open>
  \<^verbatim>\<open>updateElementVisibility\<close> has three blocks, one per scene object, run in this
  order. The sphere block:
  \<^verbatim>\<open>
    const shouldShowSphere = this.appState.currentZoomScale === 'sphere';
    if (shouldShowSphere !== this.appState.sphereVisible) {
      this.appState.sphereVisible = shouldShowSphere;
      this.sphere?.updateVisibility(shouldShowSphere);
    }
  \<close>
\<close>

definition sphereBlock :: "StadiumApp \<Rightarrow> StadiumApp" where
  "sphereBlock a =
     (let shouldShowSphere = (currentZoomScale (appState a) = Sphere) in
      if shouldShowSphere \<noteq> sphereVisible (appState a) then
        (let b = a\<lparr>appState := (appState a)\<lparr>sphereVisible := shouldShowSphere\<rparr>\<rparr> in
         case sphere b of
           None \<Rightarrow> b
         | Some s \<Rightarrow>
             b\<lparr>trace := trace b @ Sphere_updateVisibility (gsap b) shouldShowSphere None\<rparr>)
      else a)"

text \<open>
  The stadium block, which tests the presence of the object and nothing else:
  \<^verbatim>\<open>
    const shouldShowStadium = this.appState.currentZoomScale !== 'sphere';
    if (this.sceneElements.stadium) {
      this.stadiumLoader.updateStadiumVisibility(
        this.sceneElements.stadium, shouldShowStadium);
    }
  \<close>
\<close>

definition stadiumBlock :: "StadiumApp \<Rightarrow> StadiumApp" where
  "stadiumBlock a =
     (let shouldShowStadium = (currentZoomScale (appState a) \<noteq> Sphere) in
      case stadium (sceneElements a) of
        None \<Rightarrow> a
      | Some st \<Rightarrow>
          (let r = updateStadiumVisibility (gsap a) st shouldShowStadium None in
           a\<lparr>sceneElements := (sceneElements a)\<lparr>stadium := Some (fst r)\<rparr>,
             trace := trace a @ snd r\<rparr>))"

text \<open>
  The detail block:
  \<^verbatim>\<open>
    const shouldShowDetail = this.appState.currentZoomScale === 'detail';
    if (shouldShowDetail !== this.appState.stadiumDetailVisible) {
      this.appState.stadiumDetailVisible = shouldShowDetail;
      this.lightingSystem?.updateFloodlightIntensity(shouldShowDetail);
    }
  \<close>
\<close>

definition detailBlock :: "StadiumApp \<Rightarrow> StadiumApp" where
  "detailBlock a =
     (let shouldShowDetail = (currentZoomScale (appState a) = Detail) in
      if shouldShowDetail \<noteq> stadiumDetailVisible (appState a) then
        (let b = a\<lparr>appState := (appState a)\<lparr>stadiumDetailVisible := shouldShowDetail\<rparr>\<rparr> in
         case lightingSystem b of
           None \<Rightarrow> b
         | Some ls \<Rightarrow>
             (let r = updateFloodlightIntensity (gsap b) ls shouldShowDetail None in
              b\<lparr>lightingSystem := Some (fst r), trace := trace b @ snd r\<rparr>))
      else a)"

definition updateElementVisibility :: "StadiumApp \<Rightarrow> StadiumApp" where
  "updateElementVisibility a = detailBlock (stadiumBlock (sphereBlock a))"

text \<open>
  \<^verbatim>\<open>updateScaleBasedVisibility\<close>, the per-frame tick. The argument \<open>distance\<close> is
  the number that \<^verbatim>\<open>camera.position.distanceTo(controls.target)\<close> returns in that
  frame; reading \<^verbatim>\<open>camera!.position\<close> or \<^verbatim>\<open>controls!.target\<close> of an undefined
  object throws a TypeError.
\<close>

definition updateScaleBasedVisibility :: "number \<Rightarrow> StadiumApp \<Rightarrow> Error + StadiumApp" where
  "updateScaleBasedVisibility distance a =
     (case camera (sceneElements a) of
        None \<Rightarrow> Inl TypeError
      | Some cam \<Rightarrow>
          (case controls (sceneElements a) of
             None \<Rightarrow> Inl TypeError
           | Some c \<Rightarrow>
               (let newScale = classify distance in
                if newScale \<noteq> currentZoomScale (appState a) then
                  Inr (updateElementVisibility
                         (a\<lparr>appState := (appState a)\<lparr>currentZoomScale := newScale\<rparr>\<rparr>))
                else Inr a)))"

text \<open>A run of frames, stopping at the first exception.\<close>

fun ticks :: "number list \<Rightarrow> StadiumApp \<Rightarrow> Error + StadiumApp" where
  "ticks [] a = Inr a"
| "ticks (d # ds) a =
     (case updateScaleBasedVisibility d a of
        Inl e \<Rightarrow> Inl e
      | Inr a' \<Rightarrow> ticks ds a')"

text \<open>The events that a step from \<open>a\<close> to \<open>a'\<close> added to the trace.\<close>

definition issued :: "StadiumApp \<Rightarrow> StadiumApp \<Rightarrow> Event list" where
  "issued a a' = drop (length (trace a)) (trace a')"

text \<open>The events of each frame of a run, frame by frame.\<close>

fun batches :: "number list \<Rightarrow> StadiumApp \<Rightarrow> Event list list" where
  "batches [] a = []"
| "batches (d # ds) a =
     (case updateScaleBasedVisibility d a of
        Inl e \<Rightarrow> []
      | Inr a' \<Rightarrow> issued a a' # batches ds a')"

text \<open>Classifying events.\<close>

fun isCall :: "Event \<Rightarrow> bool" where
  "isCall (GsapTo tw) = False"
| "isCall _ = True"

fun isStadiumCall :: "Event \<Rightarrow> bool" where
  "isStadiumCall (UpdateStadiumVisibility vis dur) = True"
| "isStadiumCall _ = False"

fun isStadiumTween :: "Event \<Rightarrow> bool" where
  "isStadiumTween (GsapTo tw) =
     (case tw_target tw of StadiumMaterial i j \<Rightarrow> True | _ \<Rightarrow> False)"
| "isStadiumTween _ = False"

fun isCameraTween :: "Event \<Rightarrow> bool" where
  "isCameraTween (GsapTo tw) = (tw_target tw = CameraPosition)"
| "isCameraTween _ = False"

fun isIntroTween :: "Event \<Rightarrow> bool" where
  "isIntroTween (GsapTo tw) = (tw_callback tw = IntroOnComplete)"
| "isIntroTween _ = False"

text \<open>The duration an event carries: the parameter of a call, the duration of a tween.\<close>

fun eventDuration :: "Event \<Rightarrow> real" where
  "eventDuration (SphereUpdateVisibility vis dur) = dur"
| "eventDuration (UpdateStadiumVisibility vis dur) = dur"
| "eventDuration (UpdateFloodlightIntensity vis dur) = dur"
| "eventDuration (GsapTo tw) = tw_duration tw"

section \<open>The intro sequencer\<close>

text \<open>
  \<^verbatim>\<open>startIntroSequence\<close>: the three switches of the controls are turned off, then,
  under \<^verbatim>\<open>typeof gsap !== 'undefined'\<close>, one tween of the camera position to
  \<^verbatim>\<open>DETAIL_END\<close> is started, which carries the completion callback. The method reads
  no field of \<^verbatim>\<open>appState\<close>.
\<close>

definition introTween :: Tween where
  "introTween =
     \<lparr>tw_target = CameraPosition,
      tw_vars = [(''x'', fst DETAIL_END), (''y'', fst (snd DETAIL_END)),
                 (''z'', snd (snd DETAIL_END))],
      tw_duration = INTRO_ZOOM, tw_ease = Power1InOut, tw_callback = IntroOnComplete\<rparr>"

definition startIntroSequence :: "StadiumApp \<Rightarrow> Error + StadiumApp" where
  "startIntroSequence a =
     (case controls (sceneElements a) of
        None \<Rightarrow> Inl TypeError
      | Some c \<Rightarrow>
          (let b = a\<lparr>sceneElements := (sceneElements a)
                     \<lparr>controls := Some (c\<lparr>enableRotate := False, enableZoom := False,
                                            enablePan := False\<rparr>)\<rparr>\<rparr>
           in if gsap b then
                (case camera (sceneElements b) of
                   None \<Rightarrow> Inl TypeError
                 | Some cam \<Rightarrow> Inr (b\<lparr>trace := trace b @ [GsapTo introTween]\<rparr>))
              else Inr b))"

text \<open>The \<^verbatim>\<open>onComplete\<close> callback of the intro tween.\<close>

definition introOnComplete :: "StadiumApp \<Rightarrow> Error + StadiumApp" where
  "introOnComplete a =
     (case controls (sceneElements a) of
        None \<Rightarrow> Inl TypeError
      | Some c \<Rightarrow>
          Inr (a\<lparr>sceneElements := (sceneElements a)
                   \<lparr>controls := Some (c\<lparr>enableRotate := True, enableZoom := True,
                                          enablePan := True\<rparr>)\<rparr>,
                 appState := (appState a)\<lparr>hasSeenIntroSequence := True\<rparr>\<rparr>))"

text \<open>
  The engine finishing the tween that event \<open>i\<close> of the trace started: the properties
  named in the tween are at their end values, and a tween that carries the intro callback
  runs it. The engine can only finish a tween that was handed to it; an event that is a
  method call, or an index beyond the trace, changes nothing.
\<close>

definition endValue :: "(string \<times> real) list \<Rightarrow> string \<Rightarrow> real \<Rightarrow> real" where
  "endValue vars name current = (case map_of vars name of None \<Rightarrow> current | Some v \<Rightarrow> v)"

definition endVector :: "(string \<times> real) list \<Rightarrow> vec3 \<Rightarrow> vec3" where
  "endVector vars v =
     (endValue vars ''x'' (fst v), endValue vars ''y'' (fst (snd v)),
      endValue vars ''z'' (snd (snd v)))"

definition endMaterial :: "(string \<times> real) list \<Rightarrow> nat \<Rightarrow> nat \<Rightarrow> Object3D \<Rightarrow> Object3D" where
  "endMaterial vars i j st =
     (if i < length (meshes st) \<and> j < length (material (meshes st ! i)) then
        (let m = meshes st ! i; mat = material m ! j in
         st\<lparr>meshes := (meshes st)
               [i := m\<lparr>material := (material m)
                        [j := mat\<lparr>opacity := endValue vars ''opacity'' (opacity mat)\<rparr>]\<rparr>]\<rparr>)
      else st)"

definition endFloodlight :: "(string \<times> real) list \<Rightarrow> nat \<Rightarrow> LightingSystem \<Rightarrow> LightingSystem" where
  "endFloodlight vars i ls =
     (if i < length (floodlights ls) then
        ls\<lparr>floodlights := (floodlights ls)
              [i := endValue vars ''intensity'' (floodlights ls ! i)]\<rparr>
      else ls)"

definition applyTween :: "Tween \<Rightarrow> StadiumApp \<Rightarrow> StadiumApp" where
  "applyTween tw a =
     (case tw_target tw of
        CameraPosition \<Rightarrow>
          (case camera (sceneElements a) of
             None \<Rightarrow> a
           | Some cam \<Rightarrow>
               a\<lparr>sceneElements := (sceneElements a)
                    \<lparr>camera := Some (cam\<lparr>position := endVector (tw_vars tw) (position cam)\<rparr>)\<rparr>\<rparr>)
      | SphereGroup \<Rightarrow>
          (case sphere a of
             None \<Rightarrow> a
           | Some s \<Rightarrow>
               a\<lparr>sphere := Some (s\<lparr>group_opacity := map_of (tw_vars tw) ''opacity''\<rparr>)\<rparr>)
      | SphereGroupScale \<Rightarrow>
          (case sphere a of
             None \<Rightarrow> a
           | Some s \<Rightarrow> a\<lparr>sphere := Some (s\<lparr>scale := endVector (tw_vars tw) (scale s)\<rparr>)\<rparr>)
      | StadiumMaterial i j \<Rightarrow>
          (case stadium (sceneElements a) of
             None \<Rightarrow> a
           | Some st \<Rightarrow>
               a\<lparr>sceneElements := (sceneElements a)
                    \<lparr>stadium := Some (endMaterial (tw_vars tw) i j st)\<rparr>\<rparr>)
      | Floodlight i \<Rightarrow>
          (case lightingSystem a of
             None \<Rightarrow> a
           | Some ls \<Rightarrow> a\<lparr>lightingSystem := Some (endFloodlight (tw_vars tw) i ls)\<rparr>))"

definition gsapComplete :: "nat \<Rightarrow> StadiumApp \<Rightarrow> Error + StadiumApp" where
  "gsapComplete i a =
     (if i < length (trace a) then
        (case trace a ! i of
           GsapTo tw \<Rightarrow>
             (if tw_callback tw = IntroOnComplete then introOnComplete (applyTween tw a)
              else Inr (applyTween tw a))
         | _ \<Rightarrow> Inr a)
      else Inr a)"

text \<open>
  \<^verbatim>\<open>LightingSystem.animateFloodlights(time)\<close>: light \<open>i\<close> gets its intensity plus
  \<^verbatim>\<open>Math.sin(time * 0.5 + index) * 1.5 + Math.random() * 0.2\<close>; \<open>rnd i\<close> is the value
  \<^verbatim>\<open>Math.random()\<close> returns for light \<open>i\<close>.
\<close>

fun animateLights :: "real \<Rightarrow> (nat \<Rightarrow> real) \<Rightarrow> nat \<Rightarrow> real list \<Rightarrow> real list" where
  "animateLights time rnd i [] = []"
| "animateLights time rnd i (light # lights) =
     (light + sin (time * 0.5 + real i) * 1.5 + rnd i * 0.2)
       # animateLights time rnd (Suc i) lights"

definition animateFloodlights :: "real \<Rightarrow> (nat \<Rightarrow> real) \<Rightarrow> LightingSystem \<Rightarrow> LightingSystem" where
  "animateFloodlights time rnd ls = ls\<lparr>floodlights := animateLights time rnd 0 (floodlights ls)\<rparr>"

text \<open>
  What a frame takes from outside the repository: the distance that
  \<^verbatim>\<open>camera.position.distanceTo(controls.target)\<close> returns, the value of
  \<^verbatim>\<open>Date.now()\<close>, the values of \<^verbatim>\<open>Math.random()\<close>, and the position at which
  \<^verbatim>\<open>controls.update()\<close> of the orbit controls (three.js) leaves the camera: that call
  recomputes the position from its spherical coordinates, clamped and damped, in every
  frame.
\<close>

record FrameInput =
  distanceTo :: number
  dateNow :: real
  mathRandom :: "nat \<Rightarrow> real"
  orbit :: vec3

definition controlsUpdate :: "vec3 \<Rightarrow> StadiumApp \<Rightarrow> StadiumApp" where
  "controlsUpdate p a =
     (case camera (sceneElements a) of
        None \<Rightarrow> a
      | Some cam \<Rightarrow>
          a\<lparr>sceneElements := (sceneElements a)\<lparr>camera := Some (cam\<lparr>position := p\<rparr>)\<rparr>\<rparr>)"

text \<open>
  \<^verbatim>\<open>animate\<close>, one frame of the loop: the tick, the floodlight animation at the detail
  scale while \<^verbatim>\<open>isAnimationPlaying\<close> holds, then \<^verbatim>\<open>controls!.update()\<close>. Rendering
  changes nothing of the state kept here.
\<close>

definition animate :: "FrameInput \<Rightarrow> StadiumApp \<Rightarrow> Error + StadiumApp" where
  "animate f a =
     (case updateScaleBasedVisibility (distanceTo f) a of
        Inl e \<Rightarrow> Inl e
      | Inr b \<Rightarrow>
          (let c = (if isAnimationPlaying (appState b) then
                      (let time = dateNow f * 0.001 in
                       case lightingSystem b of
                         None \<Rightarrow> b
                       | Some ls \<Rightarrow>
                           (if currentZoomScale (appState b) = Detail then
                              b\<lparr>lightingSystem :=
                                  Some (animateFloodlights time (mathRandom f) ls)\<rparr>
                            else b))
                    else b)
           in case controls (sceneElements c) of
                None \<Rightarrow> Inl TypeError
              | Some ctl \<Rightarrow> Inr (controlsUpdate (orbit f) c)))"

text \<open>
  What happens to a running application: a frame, or the engine finishing a tween.
\<close>

datatype Input = Frame FrameInput | TweenComplete nat

fun step :: "Input \<Rightarrow> StadiumApp \<Rightarrow> Error + StadiumApp" where
  "step (Frame f) a = animate f a"
| "step (TweenComplete i) a = gsapComplete i a"

fun run :: "Input list \<Rightarrow> StadiumApp \<Rightarrow> Error + StadiumApp" where
  "run [] a = Inr a"
| "run (inp # inps) a =
     (case step inp a of
        Inl e \<Rightarrow> Inl e
      | Inr a' \<Rightarrow> run inps a')"

text \<open>A frame at a given distance and camera position, with clock and random values 0.\<close>

definition frameAt :: "number \<Rightarrow> vec3 \<Rightarrow> FrameInput" where
  "frameAt d p = \<lparr>distanceTo = d, dateNow = 0, mathRandom = (\<lambda>k. 0), orbit = p\<rparr>"

text \<open>Where the \<^verbatim>\<open>controls.update()\<close> calls of a run leave a camera that starts at \<open>p\<close>.\<close>

fun orbitAfter :: "Input list \<Rightarrow> vec3 \<Rightarrow> vec3" where
  "orbitAfter [] p = p"
| "orbitAfter (Frame f # inps) p = orbitAfter inps (orbit f)"
| "orbitAfter (TweenComplete i # inps) p = orbitAfter inps p"

text \<open>
  \<^verbatim>\<open>initCamera\<close> puts the camera at \<^verbatim>\<open>SPHERE_START\<close>; \<^verbatim>\<open>initControls\<close> then builds
  the orbit controls, whose constructor (three.js) runs \<^verbatim>\<open>update()\<close> once and so
  rewrites the position from its spherical coordinates: the height becomes
  \<^verbatim>\<open>Math.cos(Math.acos(0)) * 4000\<close>, which is not 0 in double arithmetic but
  \<^verbatim>\<open>2.4492935982947065e-13\<close>.
\<close>

definition CONTROLS_START :: vec3 where
  "CONTROLS_START = (0, 0.00000000000024492935982947065, 4000)"

text \<open>
  \<^verbatim>\<open>init\<close>: the application as the constructor calls leave it (camera and orbit
  controls with their inputs on, the sphere, four floodlights at intensity 2, the stadium
  when its load succeeded), then the one call of \<^verbatim>\<open>startIntroSequence\<close>.
\<close>

definition constructed :: "bool \<Rightarrow> Object3D option \<Rightarrow> StadiumApp" where
  "constructed engine loaded =
     \<lparr>sceneElements =
        \<lparr>camera = Some \<lparr>position = CONTROLS_START\<rparr>,
         controls = Some \<lparr>enableRotate = True, enableZoom = True, enablePan = True\<rparr>,
         stadium = loaded\<rparr>,
      appState = initialAppState,
      sphere = Some \<lparr>scale = (1, 1, 1), group_opacity = None\<rparr>,
      lightingSystem = Some \<lparr>floodlights = [2.0, 2.0, 2.0, 2.0]\<rparr>,
      gsap = engine,
      trace = []\<rparr>"

definition init :: "bool \<Rightarrow> Object3D option \<Rightarrow> Error + StadiumApp" where
  "init engine loaded = startIntroSequence (constructed engine loaded)"

text \<open>
  A stadium model of one mesh with one material, as \<^verbatim>\<open>prepareStadiumMaterials\<close>
  leaves it after loading: hidden, opacity 0.
\<close>

definition smallStadium :: Object3D where
  "smallStadium =
     \<lparr>visible = False,
      meshes = [\<lparr>mesh_visible = False, material = [\<lparr>opacity = 0.0\<rparr>]\<rparr>]\<rparr>"

text \<open>The same application with the animation engine loaded.\<close>

definition demoApp :: StadiumApp where
  "demoApp = constructed True (Some smallStadium)"

section \<open>Observations used in the statements\<close>

text \<open>A stadium hidden outright: the object and every mesh invisible, every opacity 0.\<close>

definition hiddenAtOnce :: "Object3D \<Rightarrow> bool" where
  "hiddenAtOnce st =
     (\<not> visible st
      \<and> list_all (\<lambda>m. \<not> mesh_visible m \<and> list_all (\<lambda>mat. opacity mat = 0) (material m))
           (meshes st))"

text \<open>The three input switches of the controls, all off and all on.\<close>

definition controlsDisabled :: "StadiumApp \<Rightarrow> bool" where
  "controlsDisabled a =
     (case controls (sceneElements a) of
        None \<Rightarrow> False
      | Some c \<Rightarrow> \<not> enableRotate c \<and> \<not> enableZoom c \<and> \<not> enablePan c)"

definition controlsEnabled :: "StadiumApp \<Rightarrow> bool" where
  "controlsEnabled a =
     (case controls (sceneElements a) of
        None \<Rightarrow> False
      | Some c \<Rightarrow> enableRotate c \<and> enableZoom c \<and> enablePan c)"

text \<open>
  The two visibility flags agree with the current scale: the sphere is recorded visible
  exactly at the sphere scale, the detail lighting exactly at the detail scale.
\<close>

definition visibilityAgrees :: "AppState \<Rightarrow> bool" where
  "visibilityAgrees s =
     (sphereVisible s = (currentZoomScale s = Sphere)
      \<and> stadiumDetailVisible s = (currentZoomScale s = Detail))"

text \<open>Running one step after another, an exception ending the run; reading a result.\<close>

definition andThen ::
  "Error + StadiumApp \<Rightarrow> (StadiumApp \<Rightarrow> Error + StadiumApp) \<Rightarrow> Error + StadiumApp" where
  "andThen r f = (case r of Inl e \<Rightarrow> Inl e | Inr a \<Rightarrow> f a)"

definition observe :: "(StadiumApp \<Rightarrow> 'a) \<Rightarrow> Error + StadiumApp \<Rightarrow> 'a option" where
  "observe f r = (case r of Inl e \<Rightarrow> None | Inr a \<Rightarrow> Some (f a))"

section \<open>Properties of the classifier\<close>

lemma classify_Num:
  "classify (Num d) = (if 2500 \<le> d then Sphere else if 500 \<le> d then Stadium else Detail)"
  by (simp add: classify_def)

text \<open>
  C1. For every finite non-negative distance the classifier returns one of the three
  scales, and each boundary value belongs to the band that names it as its minimum:
  2500 is sphere, 500 is stadium, 1 is detail.
\<close>

theorem classify_total_boundaries:
  assumes "0 \<le> d"
  shows "classify (Num d) \<in> set bands
    \<and> distinct bands
    \<and> classify (Num 2500) = Sphere \<and> min_v (SCALE_THRESHOLDS Sphere) = Num 2500
    \<and> classify (Num 500) = Stadium \<and> min_v (SCALE_THRESHOLDS Stadium) = Num 500
    \<and> classify (Num 1) = Detail \<and> min_v (SCALE_THRESHOLDS Detail) = Num 1"
  by (simp add: classify_Num bands_def)

theorem classify_total_boundaries_witness:
  "(0::real) \<le> 1800 \<and> classify (Num 1800) = Stadium \<and> classify (Num 1800) \<in> set bands
    \<and> classify (Num 2500) = Sphere \<and> classify (Num 500) = Stadium
    \<and> classify (Num 1) = Detail"
  using classify_total_boundaries [of 1800]
  by (simp add: classify_Num)

text \<open>
  C7, as the code has it. For a distance of at least 1 the classifier returns the first
  band, in the order sphere, stadium, detail, whose half-open interval holds the
  distance. A distance below 1 lies in no band and no band has a minimum at or below
  it, so the fallback of the specification names nothing; the code returns detail there,
  through its final else branch.
\<close>

theorem classify_first_band_else_detail:
  "(1 \<le> d \<longrightarrow> find (band_contains (Num d)) bands = Some (classify (Num d))
        \<and> classify_spec (Num d) = Some (classify (Num d)))
   \<and> (d < 1 \<longrightarrow> find (band_contains (Num d)) bands = None
        \<and> find (band_min_le (Num d)) bands = None
        \<and> classify (Num d) = Detail)"
  by (simp add: classify_Num classify_spec_def bands_def band_contains_def band_min_le_def)

theorem classify_first_band_else_detail_witness:
  "(1::real) \<le> 2500 \<and> find (band_contains (Num 2500)) bands = Some Sphere
   \<and> (1/2::real) < 1 \<and> find (band_min_le (Num (1/2))) bands = None
   \<and> classify (Num (1/2)) = Detail"
  using classify_first_band_else_detail [of 2500] classify_first_band_else_detail [of "1/2"]
  by (simp add: classify_Num)

text \<open>
  The claim C7 as it is worded fails in the gap: at distance 0.5 the code answers detail,
  whose minimum 1 is above the distance, while the worded fallback has no band to give.
\<close>

theorem classify_gap_fallback_counterexample:
  "classify (Num (1/2)) = Detail
   \<and> \<not> band_min_le (Num (1/2)) Detail
   \<and> classify_spec (Num (1/2)) \<noteq> Some (classify (Num (1/2)))"
  by (simp add: classify_Num classify_spec_def bands_def band_contains_def band_min_le_def)

text \<open>
  C10. Every distance strictly below 500 is classified as detail, also inside the
  uncovered gap from 0 to 1, for negative distances and for minus infinity: the result
  is never the sphere scale and the classifier has no failing branch.
\<close>

theorem classify_below_500_detail:
  assumes "d < 500"
  shows "classify (Num d) = Detail \<and> classify NegInf = Detail"
  using assms by (simp add: classify_Num classify_def)

theorem classify_below_500_detail_witness:
  "(1/2::real) < 500 \<and> classify (Num (1/2)) = Detail
   \<and> (-3::real) < 500 \<and> classify (Num (-3)) = Detail
   \<and> classify (Num 499) = Detail"
  using classify_below_500_detail [of "1/2"] classify_below_500_detail [of "-3"]
    classify_below_500_detail [of 499]
  by simp

section \<open>What the visibility methods leave alone\<close>

lemma sphereBlock_frame:
  "sceneElements (sphereBlock a) = sceneElements a"
  "gsap (sphereBlock a) = gsap a"
  "lightingSystem (sphereBlock a) = lightingSystem a"
  "sphere (sphereBlock a) = sphere a"
  "currentZoomScale (appState (sphereBlock a)) = currentZoomScale (appState a)"
  "stadiumDetailVisible (appState (sphereBlock a)) = stadiumDetailVisible (appState a)"
  "hasSeenIntroSequence (appState (sphereBlock a)) = hasSeenIntroSequence (appState a)"
  "stadiumTextVisible (appState (sphereBlock a)) = stadiumTextVisible (appState a)"
  "sphereVisible (appState (sphereBlock a)) = (currentZoomScale (appState a) = Sphere)"
  by (auto simp: sphereBlock_def Let_def split: option.splits)

lemma stadiumBlock_frame:
  "camera (sceneElements (stadiumBlock a)) = camera (sceneElements a)"
  "controls (sceneElements (stadiumBlock a)) = controls (sceneElements a)"
  "gsap (stadiumBlock a) = gsap a"
  "lightingSystem (stadiumBlock a) = lightingSystem a"
  "sphere (stadiumBlock a) = sphere a"
  "appState (stadiumBlock a) = appState a"
  "(stadium (sceneElements (stadiumBlock a)) = None) = (stadium (sceneElements a) = None)"
  by (auto simp: stadiumBlock_def Let_def split: option.splits)

lemma detailBlock_frame:
  "sceneElements (detailBlock a) = sceneElements a"
  "gsap (detailBlock a) = gsap a"
  "sphere (detailBlock a) = sphere a"
  "(lightingSystem (detailBlock a) = None) = (lightingSystem a = None)"
  "currentZoomScale (appState (detailBlock a)) = currentZoomScale (appState a)"
  "sphereVisible (appState (detailBlock a)) = sphereVisible (appState a)"
  "hasSeenIntroSequence (appState (detailBlock a)) = hasSeenIntroSequence (appState a)"
  "stadiumTextVisible (appState (detailBlock a)) = stadiumTextVisible (appState a)"
  "stadiumDetailVisible (appState (detailBlock a)) = (currentZoomScale (appState a) = Detail)"
  by (auto simp: detailBlock_def Let_def split: option.splits)

lemmas block_frame = sphereBlock_frame stadiumBlock_frame detailBlock_frame

lemma updateElementVisibility_frame:
  "camera (sceneElements (updateElementVisibility a)) = camera (sceneElements a)"
  "controls (sceneElements (updateElementVisibility a)) = controls (sceneElements a)"
  "gsap (updateElementVisibility a) = gsap a"
  "sphere (updateElementVisibility a) = sphere a"
  "(lightingSystem (updateElementVisibility a) = None) = (lightingSystem a = None)"
  "(stadium (sceneElements (updateElementVisibility a)) = None) = (stadium (sceneElements a) = None)"
  "currentZoomScale (appState (updateElementVisibility a)) = currentZoomScale (appState a)"
  "hasSeenIntroSequence (appState (updateElementVisibility a)) = hasSeenIntroSequence (appState a)"
  "stadiumTextVisible (appState (updateElementVisibility a)) = stadiumTextVisible (appState a)"
  "sphereVisible (appState (updateElementVisibility a)) = (currentZoomScale (appState a) = Sphere)"
  "stadiumDetailVisible (appState (updateElementVisibility a)) = (currentZoomScale (appState a) = Detail)"
  by (simp_all add: updateElementVisibility_def block_frame)

lemma tick_cases:
  assumes "updateScaleBasedVisibility d a = Inr a'"
  obtains (same) "classify d = currentZoomScale (appState a)" "a' = a"
  | (change) "classify d \<noteq> currentZoomScale (appState a)"
      "a' = updateElementVisibility (a\<lparr>appState := (appState a)\<lparr>currentZoomScale := classify d\<rparr>\<rparr>)"
  using assms
  by (auto simp: updateScaleBasedVisibility_def Let_def split: option.splits if_splits)

lemma tick_defined:
  assumes "camera (sceneElements a) \<noteq> None" "controls (sceneElements a) \<noteq> None"
  shows "\<exists>a'. updateScaleBasedVisibility d a = Inr a'"
  using assms by (auto simp: updateScaleBasedVisibility_def Let_def)

lemma tick_frame:
  assumes "updateScaleBasedVisibility d a = Inr a'"
  shows "camera (sceneElements a') = camera (sceneElements a)"
    and "controls (sceneElements a') = controls (sceneElements a)"
    and "gsap a' = gsap a"
    and "sphere a' = sphere a"
    and "(lightingSystem a' = None) = (lightingSystem a = None)"
    and "(stadium (sceneElements a') = None) = (stadium (sceneElements a) = None)"
    and "hasSeenIntroSequence (appState a') = hasSeenIntroSequence (appState a)"
    and "stadiumTextVisible (appState a') = stadiumTextVisible (appState a)"
    and "currentZoomScale (appState a') = classify d"
  using assms by (auto elim!: tick_cases simp: updateElementVisibility_frame)

lemma tick_noop:
  assumes "camera (sceneElements a) \<noteq> None" "controls (sceneElements a) \<noteq> None"
    and "classify d = currentZoomScale (appState a)"
  shows "updateScaleBasedVisibility d a = Inr a"
  using assms by (auto simp: updateScaleBasedVisibility_def Let_def)

lemma fadeMaterials_events:
  "filter isCall (snd (fadeMaterials engine vis dur i j mats)) = []"
  "list_all (\<lambda>e. eventDuration e = dur) (snd (fadeMaterials engine vis dur i j mats))"
  "\<not> vis \<Longrightarrow> snd (fadeMaterials engine vis dur i j mats) = []"
  "\<not> vis \<Longrightarrow> list_all (\<lambda>mat. opacity mat = 0) (fst (fadeMaterials engine vis dur i j mats))"
  by (induction mats arbitrary: j) (auto simp: Let_def)

lemma traverseMeshes_events:
  "filter isCall (snd (traverseMeshes engine vis dur i ms)) = []"
  "list_all (\<lambda>e. eventDuration e = dur) (snd (traverseMeshes engine vis dur i ms))"
  "\<not> vis \<Longrightarrow> snd (traverseMeshes engine vis dur i ms) = []"
  by (induction ms arbitrary: i) (auto simp: Let_def fadeMaterials_events)

lemma rampFloodlights_events:
  "filter isCall (snd (rampFloodlights engine isDetailMode dur i lights)) = []"
  "list_all (\<lambda>e. eventDuration e = dur) (snd (rampFloodlights engine isDetailMode dur i lights))"
  "filter isStadiumTween (snd (rampFloodlights engine isDetailMode dur i lights)) = []"
  "filter isStadiumCall (snd (rampFloodlights engine isDetailMode dur i lights)) = []"
  by (induction lights arbitrary: i) (auto simp: Let_def)

lemma traverseMeshes_hidden:
  "list_all (\<lambda>m. \<not> mesh_visible m \<and> list_all (\<lambda>mat. opacity mat = 0) (material m))
     (fst (traverseMeshes engine False dur i ms))"
  by (induction ms arbitrary: i) (simp_all add: Let_def fadeMaterials_events)

lemma issued_eq: "trace a' = trace a @ evs \<Longrightarrow> issued a a' = evs"
  by (simp add: issued_def)

lemma issued_trans:
  assumes "trace b = trace a @ issued a b" and "trace c = trace b @ issued b c"
  shows "issued a c = issued a b @ issued b c" and "trace c = trace a @ issued a c"
proof -
  have "trace c = trace a @ (issued a b @ issued b c)"
    using assms by simp
  then show "issued a c = issued a b @ issued b c"
    by (rule issued_eq)
  then show "trace c = trace a @ issued a c"
    using assms by simp
qed

lemma sphereBlock_issued:
  "issued a (sphereBlock a) =
     (if sphere a \<noteq> None
        \<and> (currentZoomScale (appState a) = Sphere) \<noteq> sphereVisible (appState a)
      then Sphere_updateVisibility (gsap a) (currentZoomScale (appState a) = Sphere) None
      else [])"
  by (rule issued_eq) (auto simp: sphereBlock_def Let_def)

lemma stadiumBlock_issued:
  "issued a (stadiumBlock a) =
     (case stadium (sceneElements a) of
        None \<Rightarrow> []
      | Some st \<Rightarrow>
          snd (updateStadiumVisibility (gsap a) st (currentZoomScale (appState a) \<noteq> Sphere) None))"
  by (rule issued_eq) (simp add: stadiumBlock_def Let_def split: option.split)

lemma detailBlock_issued:
  "issued a (detailBlock a) =
     (if (currentZoomScale (appState a) = Detail) \<noteq> stadiumDetailVisible (appState a)
      then (case lightingSystem a of
              None \<Rightarrow> []
            | Some ls \<Rightarrow>
                snd (updateFloodlightIntensity (gsap a) ls
                       (currentZoomScale (appState a) = Detail) None))
      else [])"
  apply (rule issued_eq)
  apply (auto simp add: detailBlock_def Let_def split: option.split)
  done

lemma block_extends:
  "trace (sphereBlock a) = trace a @ issued a (sphereBlock a)"
  "trace (stadiumBlock a) = trace a @ issued a (stadiumBlock a)"
  "trace (detailBlock a) = trace a @ issued a (detailBlock a)"
    apply (simp add: issued_def sphereBlock_def Let_def split: option.split)
   apply (simp add: issued_def stadiumBlock_def Let_def split: option.split)
  apply (simp add: issued_def detailBlock_def Let_def split: option.split)
  done

lemma Sphere_updateVisibility_events:
  "filter isCall (Sphere_updateVisibility engine vis None) = [SphereUpdateVisibility vis 0.8]"
  "list_all (\<lambda>e. eventDuration e = 0.8) (Sphere_updateVisibility engine vis None)"
  "filter isStadiumCall (Sphere_updateVisibility engine vis None) = []"
  "filter isStadiumTween (Sphere_updateVisibility engine vis None) = []"
  by (simp_all add: Sphere_updateVisibility_def Let_def)

lemma updateStadiumVisibility_events:
  "filter isCall (snd (updateStadiumVisibility engine st vis None)) = [UpdateStadiumVisibility vis 0.8]"
  "list_all (\<lambda>e. eventDuration e = 0.8) (snd (updateStadiumVisibility engine st vis None))"
  "filter isStadiumTween (snd (updateStadiumVisibility engine st False None)) = []"
  using traverseMeshes_events(2)[where dur="0.8"]
  by (simp_all add: updateStadiumVisibility_def Let_def traverseMeshes_events)

lemma updateFloodlightIntensity_events:
  "filter isCall (snd (updateFloodlightIntensity engine ls m None)) = [UpdateFloodlightIntensity m 0.8]"
  "list_all (\<lambda>e. eventDuration e = 0.8) (snd (updateFloodlightIntensity engine ls m None))"
  "filter isStadiumCall (snd (updateFloodlightIntensity engine ls m None)) = []"
  "filter isStadiumTween (snd (updateFloodlightIntensity engine ls m None)) = []"
  using rampFloodlights_events(2)[where dur="0.8"]
  by (simp_all add: updateFloodlightIntensity_def Let_def rampFloodlights_events)

lemmas method_events =
  Sphere_updateVisibility_events updateStadiumVisibility_events updateFloodlightIntensity_events

lemma updateElementVisibility_issued:
  "issued a (updateElementVisibility a) =
     issued a (sphereBlock a) @ issued (sphereBlock a) (stadiumBlock (sphereBlock a))
       @ issued (stadiumBlock (sphereBlock a)) (updateElementVisibility a)"
  "trace (updateElementVisibility a) = trace a @ issued a (updateElementVisibility a)"
proof -
  let ?b = "sphereBlock a" and ?c = "stadiumBlock (sphereBlock a)"
  let ?d = "updateElementVisibility a"
  have d: "?d = detailBlock ?c" by (simp add: updateElementVisibility_def)
  have ac: "issued a ?c = issued a ?b @ issued ?b ?c" "trace ?c = trace a @ issued a ?c"
    by (rule issued_trans [OF block_extends(1) block_extends(2)])+
  have cd: "trace ?d = trace ?c @ issued ?c ?d"
    unfolding d by (rule block_extends(3))
  have "issued a ?d = issued a ?c @ issued ?c ?d"
    by (rule issued_trans(1) [OF ac(2) cd])
  then show "issued a ?d = issued a ?b @ issued ?b ?c @ issued ?c ?d"
    using ac(1) by simp
  show "trace ?d = trace a @ issued a ?d"
    by (rule issued_trans(2) [OF ac(2) cd])
qed

lemma sphereBlock_events:
  "filter isCall (issued a (sphereBlock a)) =
      (if sphere a \<noteq> None \<and> (currentZoomScale (appState a) = Sphere) \<noteq> sphereVisible (appState a)
       then [SphereUpdateVisibility (currentZoomScale (appState a) = Sphere) 0.8] else [])"
  "list_all (\<lambda>e. eventDuration e = 0.8) (issued a (sphereBlock a))"
  "filter isStadiumCall (issued a (sphereBlock a)) = []"
  "filter isStadiumTween (issued a (sphereBlock a)) = []"
  using method_events(2)
  by (simp_all add: sphereBlock_issued method_events)

lemma stadiumBlock_events:
  "filter isCall (issued a (stadiumBlock a)) =
      (if stadium (sceneElements a) \<noteq> None
       then [UpdateStadiumVisibility (currentZoomScale (appState a) \<noteq> Sphere) 0.8] else [])"
  "list_all (\<lambda>e. eventDuration e = 0.8) (issued a (stadiumBlock a))"
  "stadium (sceneElements a) = None \<Longrightarrow> issued a (stadiumBlock a) = []"
  "currentZoomScale (appState a) = Sphere \<Longrightarrow> filter isStadiumTween (issued a (stadiumBlock a)) = []"
  using method_events(6)
  by (cases "stadium (sceneElements a)"; simp add: stadiumBlock_issued method_events)+

lemma detailBlock_calls:
  "filter isCall (issued a (detailBlock a)) =
      (if lightingSystem a \<noteq> None
          \<and> (currentZoomScale (appState a) = Detail) \<noteq> stadiumDetailVisible (appState a)
       then [UpdateFloodlightIntensity (currentZoomScale (appState a) = Detail) 0.8] else [])"
  by (cases "(currentZoomScale (appState a) = Detail) \<noteq> stadiumDetailVisible (appState a)";
      cases "lightingSystem a")
     (simp_all add: detailBlock_issued method_events)

lemma detailBlock_durations:
  "list_all (\<lambda>e. eventDuration e = 0.8) (issued a (detailBlock a))"
  using method_events(9)
  by (cases "(currentZoomScale (appState a) = Detail) \<noteq> stadiumDetailVisible (appState a)";
      cases "lightingSystem a")
     (simp_all add: detailBlock_issued)

lemma detailBlock_no_stadium_call:
  "filter isStadiumCall (issued a (detailBlock a)) = []"
  by (cases "(currentZoomScale (appState a) = Detail) \<noteq> stadiumDetailVisible (appState a)";
      cases "lightingSystem a")
     (simp_all add: detailBlock_issued method_events)

lemma detailBlock_no_stadium_tween:
  "filter isStadiumTween (issued a (detailBlock a)) = []"
  by (cases "(currentZoomScale (appState a) = Detail) \<noteq> stadiumDetailVisible (appState a)";
      cases "lightingSystem a")
     (simp_all add: detailBlock_issued method_events)

lemmas detailBlock_events =
  detailBlock_calls detailBlock_durations detailBlock_no_stadium_call detailBlock_no_stadium_tween

lemma updateElementVisibility_split:
  "issued a (updateElementVisibility a) =
     issued a (sphereBlock a) @ issued (sphereBlock a) (stadiumBlock (sphereBlock a))
       @ issued (stadiumBlock (sphereBlock a)) (detailBlock (stadiumBlock (sphereBlock a)))"
  using updateElementVisibility_issued(1) [of a]
  by (simp add: updateElementVisibility_def)

lemma updateElementVisibility_calls:
  "filter isCall (issued a (updateElementVisibility a)) =
      (if sphere a \<noteq> None \<and> (currentZoomScale (appState a) = Sphere) \<noteq> sphereVisible (appState a)
       then [SphereUpdateVisibility (currentZoomScale (appState a) = Sphere) 0.8] else [])
      @ (if stadium (sceneElements a) \<noteq> None
         then [UpdateStadiumVisibility (currentZoomScale (appState a) \<noteq> Sphere) 0.8] else [])
      @ (if lightingSystem a \<noteq> None
          \<and> (currentZoomScale (appState a) = Detail) \<noteq> stadiumDetailVisible (appState a)
         then [UpdateFloodlightIntensity (currentZoomScale (appState a) = Detail) 0.8] else [])"
  by (simp only: updateElementVisibility_split filter_append sphereBlock_events(1)
      stadiumBlock_events(1) detailBlock_calls block_frame)

lemma updateElementVisibility_durations:
  "list_all (\<lambda>e. eventDuration e = 0.8) (issued a (updateElementVisibility a))"
  by (simp only: updateElementVisibility_split list_all_append sphereBlock_events(2)
      stadiumBlock_events(2) detailBlock_durations simp_thms)

lemma updateElementVisibility_no_stadium:
  assumes "stadium (sceneElements a) = None"
  shows "filter isStadiumCall (issued a (updateElementVisibility a)) = []"
    and "filter isStadiumTween (issued a (updateElementVisibility a)) = []"
proof -
  have "issued (sphereBlock a) (stadiumBlock (sphereBlock a)) = []"
    using assms by (simp add: stadiumBlock_events(3) sphereBlock_frame)
  then show "filter isStadiumCall (issued a (updateElementVisibility a)) = []"
    and "filter isStadiumTween (issued a (updateElementVisibility a)) = []"
    by (simp_all add: updateElementVisibility_split sphereBlock_events detailBlock_events)
qed

lemma updateElementVisibility_hide_stadium:
  assumes "currentZoomScale (appState a) = Sphere"
  shows "filter isStadiumTween (issued a (updateElementVisibility a)) = []"
proof -
  have "filter isStadiumTween (issued (sphereBlock a) (stadiumBlock (sphereBlock a))) = []"
    using assms by (simp add: stadiumBlock_events(4) sphereBlock_frame)
  then show ?thesis
    by (simp add: updateElementVisibility_split sphereBlock_events detailBlock_events)
qed

lemma issued_same_trace: "trace b = trace a \<Longrightarrow> issued a x = issued b x"
  by (simp add: issued_def)

lemma issued_self: "issued a a = []"
  by (simp add: issued_def)

lemma tick_issued_change:
  assumes "updateScaleBasedVisibility d a = Inr a'"
    and "classify d \<noteq> currentZoomScale (appState a)"
  shows "issued a a' =
    issued (a\<lparr>appState := (appState a)\<lparr>currentZoomScale := classify d\<rparr>\<rparr>)
      (updateElementVisibility (a\<lparr>appState := (appState a)\<lparr>currentZoomScale := classify d\<rparr>\<rparr>))"
  using assms by (auto elim!: tick_cases intro: issued_same_trace)

lemma tick_issued_same:
  assumes "updateScaleBasedVisibility d a = Inr a'"
    and "classify d = currentZoomScale (appState a)"
  shows "issued a a' = []"
  using assms by (auto elim!: tick_cases simp: issued_self)

lemma tick_extends:
  assumes "updateScaleBasedVisibility d a = Inr a'"
  shows "trace a' = trace a @ issued a a'"
  using assms
proof (cases rule: tick_cases)
  case same
  then show ?thesis by (simp add: issued_self)
next
  case change
  let ?b = "a\<lparr>appState := (appState a)\<lparr>currentZoomScale := classify d\<rparr>\<rparr>"
  have "trace (updateElementVisibility ?b) = trace ?b @ issued ?b (updateElementVisibility ?b)"
    by (rule updateElementVisibility_issued(2))
  then show ?thesis
    using change(2) tick_issued_change [OF assms change(1)] by simp
qed

lemma tick_calls:
  assumes "updateScaleBasedVisibility d a = Inr a'"
    and "classify d \<noteq> currentZoomScale (appState a)"
  shows "filter isCall (issued a a') =
      (if sphere a \<noteq> None \<and> (classify d = Sphere) \<noteq> sphereVisible (appState a)
       then [SphereUpdateVisibility (classify d = Sphere) 0.8] else [])
      @ (if stadium (sceneElements a) \<noteq> None
         then [UpdateStadiumVisibility (classify d \<noteq> Sphere) 0.8] else [])
      @ (if lightingSystem a \<noteq> None \<and> (classify d = Detail) \<noteq> stadiumDetailVisible (appState a)
         then [UpdateFloodlightIntensity (classify d = Detail) 0.8] else [])"
  unfolding tick_issued_change [OF assms] updateElementVisibility_calls by simp

lemma tick_durations:
  assumes "updateScaleBasedVisibility d a = Inr a'"
  shows "list_all (\<lambda>e. eventDuration e = 0.8) (issued a a')"
proof (cases "classify d = currentZoomScale (appState a)")
  case True
  then show ?thesis using tick_issued_same [OF assms] by simp
next
  case False
  show ?thesis
    unfolding tick_issued_change [OF assms False] by (rule updateElementVisibility_durations)
qed

lemma tick_no_stadium:
  assumes "updateScaleBasedVisibility d a = Inr a'" and "stadium (sceneElements a) = None"
  shows "filter isStadiumCall (issued a a') = []" and "filter isStadiumTween (issued a a') = []"
proof -
  have "filter isStadiumCall (issued a a') = [] \<and> filter isStadiumTween (issued a a') = []"
  proof (cases "classify d = currentZoomScale (appState a)")
    case True
    then show ?thesis using tick_issued_same [OF assms(1)] by simp
  next
    case False
    show ?thesis
      unfolding tick_issued_change [OF assms(1) False]
      using assms(2) by (simp add: updateElementVisibility_no_stadium)
  qed
  then show "filter isStadiumCall (issued a a') = []"
    and "filter isStadiumTween (issued a a') = []" by simp_all
qed

lemma tick_hide_no_tween:
  assumes "updateScaleBasedVisibility d a = Inr a'" and "classify d = Sphere"
  shows "filter isStadiumTween (issued a a') = []"
proof (cases "classify d = currentZoomScale (appState a)")
  case True
  then show ?thesis using tick_issued_same [OF assms(1)] by simp
next
  case False
  show ?thesis
    unfolding tick_issued_change [OF assms(1) False]
    using assms(2) by (simp add: updateElementVisibility_hide_stadium)
qed

lemma stadiumBlock_hidden:
  assumes "currentZoomScale (appState a) = Sphere" and "stadium (sceneElements a) = Some st"
  shows "\<exists>st'. stadium (sceneElements (stadiumBlock a)) = Some st' \<and> hiddenAtOnce st'"
  using assms
  by (simp add: stadiumBlock_def Let_def updateStadiumVisibility_def hiddenAtOnce_def
      traverseMeshes_hidden)

lemma updateElementVisibility_hidden:
  assumes "currentZoomScale (appState a) = Sphere" and "stadium (sceneElements a) = Some st"
  shows "\<exists>st'. stadium (sceneElements (updateElementVisibility a)) = Some st' \<and> hiddenAtOnce st'"
proof -
  have "\<exists>st'. stadium (sceneElements (stadiumBlock (sphereBlock a))) = Some st' \<and> hiddenAtOnce st'"
    using assms by (intro stadiumBlock_hidden) (simp_all add: sphereBlock_frame)
  then show ?thesis
    by (simp add: updateElementVisibility_def detailBlock_frame)
qed

lemma tick_hidden:
  assumes "updateScaleBasedVisibility d a = Inr a'" and "classify d = Sphere"
    and "currentZoomScale (appState a) \<noteq> Sphere" and "stadium (sceneElements a) = Some st"
  shows "\<exists>st'. stadium (sceneElements a') = Some st' \<and> hiddenAtOnce st'"
  using assms
  by (auto elim!: tick_cases intro!: updateElementVisibility_hidden)

section \<open>The tick as a guard\<close>

lemmas model_defs =
  demoApp_def constructed_def smallStadium_def initialAppState_def
  updateScaleBasedVisibility_def updateElementVisibility_def sphereBlock_def stadiumBlock_def
  detailBlock_def Sphere_updateVisibility_def updateStadiumVisibility_def
  updateFloodlightIntensity_def classify_def issued_def Let_def

lemma tick_defined_iff:
  "(\<exists>a'. updateScaleBasedVisibility d a = Inr a')
     = (camera (sceneElements a) \<noteq> None \<and> controls (sceneElements a) \<noteq> None)"
  by (auto simp: updateScaleBasedVisibility_def Let_def split: option.splits)

lemma ticks_same_scale:
  assumes "camera (sceneElements a) \<noteq> None" and "controls (sceneElements a) \<noteq> None"
    and "list_all (\<lambda>d'. classify d' = currentZoomScale (appState a)) ds"
  shows "ticks ds a = Inr a \<and> batches ds a = map (\<lambda>d'. []) ds"
  using assms(3)
  by (induction ds) (simp_all add: tick_noop [OF assms(1,2)] issued_self)

text \<open>
  C2. A tick whose classified scale equals the current scale changes nothing: after a
  tick at distance \<open>d\<close>, any further frames whose distances classify to the scale of
  \<open>d\<close> leave the whole state as it is and issue no event. From the initial state, the
  distances 3000, 3000, 1800, 1800, 300 give exactly two batches of events, in the third
  and in the fifth frame.
\<close>

theorem tick_same_scale_noop:
  assumes "updateScaleBasedVisibility d a = Inr a1"
    and "list_all (\<lambda>d'. classify d' = classify d) ds"
  shows "ticks ds a1 = Inr a1
    \<and> batches ds a1 = map (\<lambda>d'. []) ds
    \<and> map (filter isCall)
        (batches [Num 3000, Num 3000, Num 1800, Num 1800, Num 300] demoApp) =
       [[], [],
        [SphereUpdateVisibility False 0.8, UpdateStadiumVisibility True 0.8],
        [],
        [UpdateStadiumVisibility True 0.8, UpdateFloodlightIntensity True 0.8]]
    \<and> map length (batches [Num 3000, Num 3000, Num 1800, Num 1800, Num 300] demoApp) =
       [0, 0, 5, 0, 7]"
proof -
  have "camera (sceneElements a) \<noteq> None" "controls (sceneElements a) \<noteq> None"
    using assms(1) tick_defined_iff [of d a] by auto
  then have "camera (sceneElements a1) \<noteq> None" "controls (sceneElements a1) \<noteq> None"
    using tick_frame(1,2) [OF assms(1)] by simp_all
  moreover have "list_all (\<lambda>d'. classify d' = currentZoomScale (appState a1)) ds"
    using tick_frame(9) [OF assms(1)] assms(2) by simp
  ultimately have noop: "ticks ds a1 = Inr a1 \<and> batches ds a1 = map (\<lambda>d'. []) ds"
    by (rule ticks_same_scale)
  have "map (filter isCall)
        (batches [Num 3000, Num 3000, Num 1800, Num 1800, Num 300] demoApp) =
       [[], [],
        [SphereUpdateVisibility False 0.8, UpdateStadiumVisibility True 0.8],
        [],
        [UpdateStadiumVisibility True 0.8, UpdateFloodlightIntensity True 0.8]]"
    by (simp add: model_defs)
  moreover have
    "map length (batches [Num 3000, Num 3000, Num 1800, Num 1800, Num 300] demoApp) =
       [0, 0, 5, 0, 7]"
    by (simp add: model_defs)
  ultimately show ?thesis
    using noop by simp
qed

theorem tick_same_scale_noop_witness:
  "andThen (updateScaleBasedVisibility (Num 1800) demoApp) (ticks [Num 1900, Num 600])
     = updateScaleBasedVisibility (Num 1800) demoApp
   \<and> observe (currentZoomScale \<circ> appState) (updateScaleBasedVisibility (Num 1800) demoApp)
     = Some Stadium
   \<and> observe (currentZoomScale \<circ> appState) (Inr demoApp) = Some Sphere"
proof -
  obtain a1 where a1: "updateScaleBasedVisibility (Num 1800) demoApp = Inr a1"
    using tick_defined [of demoApp "Num 1800"] by (auto simp: demoApp_def constructed_def)
  have c: "list_all (\<lambda>d'. classify d' = classify (Num 1800)) [Num 1900, Num 600]"
    by (simp add: classify_def)
  have "ticks [Num 1900, Num 600] a1 = Inr a1"
    using tick_same_scale_noop [OF a1 c] by simp
  moreover have "currentZoomScale (appState a1) = Stadium"
    using tick_frame(9) [OF a1] by (simp add: classify_def)
  ultimately show ?thesis
    using a1 by (simp add: andThen_def observe_def demoApp_def constructed_def initialAppState_def)
qed

section \<open>Which objects are called on a scale change\<close>

text \<open>
  C3, as the code has it. On a scale change the sphere and the floodlights are called
  only when their wanted visibility differs from the flag kept for them, while the
  stadium, for which no flag is kept, is called on every scale change as soon as it is
  present, whether its visibility changes or not. No object is called twice in one
  scale change, and the calls come in the order sphere, stadium, floodlights.
\<close>

theorem scale_change_calls:
  assumes "updateScaleBasedVisibility d a = Inr a'"
    and "classify d \<noteq> currentZoomScale (appState a)"
  shows "filter isCall (issued a a') =
      (if sphere a \<noteq> None \<and> (classify d = Sphere) \<noteq> sphereVisible (appState a)
       then [SphereUpdateVisibility (classify d = Sphere) 0.8] else [])
      @ (if stadium (sceneElements a) \<noteq> None
         then [UpdateStadiumVisibility (classify d \<noteq> Sphere) 0.8] else [])
      @ (if lightingSystem a \<noteq> None \<and> (classify d = Detail) \<noteq> stadiumDetailVisible (appState a)
         then [UpdateFloodlightIntensity (classify d = Detail) 0.8] else [])"
  using assms by (rule tick_calls)

theorem scale_change_calls_witness:
  "classify (Num 1800) \<noteq> currentZoomScale (appState demoApp)
   \<and> observe (\<lambda>a'. filter isCall (issued demoApp a'))
        (updateScaleBasedVisibility (Num 1800) demoApp)
       = Some [SphereUpdateVisibility False 0.8, UpdateStadiumVisibility True 0.8]"
proof -
  obtain a1 where a1: "updateScaleBasedVisibility (Num 1800) demoApp = Inr a1"
    using tick_defined [of demoApp "Num 1800"] by (auto simp: demoApp_def constructed_def)
  have c: "classify (Num 1800) \<noteq> currentZoomScale (appState demoApp)"
    by (simp add: classify_def demoApp_def constructed_def initialAppState_def)
  have "filter isCall (issued demoApp a1)
      = [SphereUpdateVisibility False 0.8, UpdateStadiumVisibility True 0.8]"
    using scale_change_calls [OF a1 c]
    by (simp add: classify_def demoApp_def constructed_def initialAppState_def)
  then show ?thesis
    using a1 c by (simp add: observe_def)
qed

text \<open>
  The claim C3 as it is worded fails for the stadium: going from the stadium scale to the
  detail scale the stadium stays visible, and it is called again and its fade started
  again.
\<close>

theorem stadium_called_when_unchanged_counterexample:
  "map (filter isStadiumCall) (batches [Num 1800, Num 300] demoApp) =
     [[UpdateStadiumVisibility True 0.8], [UpdateStadiumVisibility True 0.8]]
   \<and> map (filter isStadiumTween) (batches [Num 1800, Num 300] demoApp) =
     [[GsapTo \<lparr>tw_target = StadiumMaterial 0 0, tw_vars = [(''opacity'', 1.0)],
               tw_duration = 0.8, tw_ease = Power2InOut, tw_callback = NoCallback\<rparr>],
      [GsapTo \<lparr>tw_target = StadiumMaterial 0 0, tw_vars = [(''opacity'', 1.0)],
               tw_duration = 0.8, tw_ease = Power2InOut, tw_callback = NoCallback\<rparr>]]"
  by (simp add: model_defs)

section \<open>The visibility flags follow the scale\<close>

lemma tick_agrees:
  assumes "updateScaleBasedVisibility d a = Inr a'" and "visibilityAgrees (appState a)"
  shows "visibilityAgrees (appState a')"
  using assms
  by (auto elim!: tick_cases simp: visibilityAgrees_def updateElementVisibility_frame)

lemma ticks_agrees:
  assumes "camera (sceneElements a) \<noteq> None" and "controls (sceneElements a) \<noteq> None"
    and "visibilityAgrees (appState a)"
  shows "\<exists>a'. ticks ds a = Inr a' \<and> visibilityAgrees (appState a')"
  using assms
proof (induction ds arbitrary: a)
  case Nil
  then show ?case by simp
next
  case (Cons d ds)
  obtain a1 where a1: "updateScaleBasedVisibility d a = Inr a1"
    using tick_defined [OF Cons.prems(1,2)] by blast
  have "camera (sceneElements a1) \<noteq> None" "controls (sceneElements a1) \<noteq> None"
    using tick_frame(1,2) [OF a1] Cons.prems(1,2) by simp_all
  moreover have "visibilityAgrees (appState a1)"
    using tick_agrees [OF a1 Cons.prems(3)] .
  ultimately show ?case
    using Cons.IH [of a1] a1 by simp
qed

text \<open>
  C9. From a state with the sphere scale, the sphere recorded visible and the detail
  lighting recorded hidden, every sequence of ticks ends in a state where the sphere is
  recorded visible exactly at the sphere scale and the detail lighting exactly at the
  detail scale.
\<close>

theorem visibility_flags_follow_scale:
  assumes "camera (sceneElements a) \<noteq> None" and "controls (sceneElements a) \<noteq> None"
    and "currentZoomScale (appState a) = Sphere"
    and "sphereVisible (appState a)" and "\<not> stadiumDetailVisible (appState a)"
  shows "\<exists>a'. ticks ds a = Inr a'
    \<and> sphereVisible (appState a') = (currentZoomScale (appState a') = Sphere)
    \<and> stadiumDetailVisible (appState a') = (currentZoomScale (appState a') = Detail)"
proof -
  have "visibilityAgrees (appState a)"
    using assms(3-5) by (simp add: visibilityAgrees_def)
  then show ?thesis
    using ticks_agrees [OF assms(1,2), of ds] by (simp add: visibilityAgrees_def)
qed

theorem visibility_flags_follow_scale_witness:
  "observe (\<lambda>a. (currentZoomScale (appState a), sphereVisible (appState a),
                 stadiumDetailVisible (appState a)))
     (ticks [Num 3000, Num 1800, Num 300, Num 1800] demoApp) = Some (Stadium, False, False)
   \<and> appState demoApp = initialAppState"
proof -
  let ?ds = "[Num 3000, Num 1800, Num 300, Num 1800]"
  have pre: "camera (sceneElements demoApp) \<noteq> None" "controls (sceneElements demoApp) \<noteq> None"
    "currentZoomScale (appState demoApp) = Sphere" "sphereVisible (appState demoApp)"
    "\<not> stadiumDetailVisible (appState demoApp)"
    by (simp_all add: demoApp_def constructed_def initialAppState_def)
  obtain a' where a': "ticks ?ds demoApp = Inr a'"
    "sphereVisible (appState a') = (currentZoomScale (appState a') = Sphere)"
    "stadiumDetailVisible (appState a') = (currentZoomScale (appState a') = Detail)"
    using visibility_flags_follow_scale [OF pre, of ?ds] by blast
  have "currentZoomScale (appState a') = Stadium"
    using a'(1)
    by (auto simp: classify_def split: sum.splits dest!: tick_frame(9))
  then show ?thesis
    using a' by (simp add: observe_def demoApp_def constructed_def)
qed

section \<open>A missing stadium\<close>

lemma ticks_no_stadium:
  assumes "camera (sceneElements a) \<noteq> None" and "controls (sceneElements a) \<noteq> None"
    and "stadium (sceneElements a) = None"
  shows "\<exists>a'. ticks ds a = Inr a' \<and> stadium (sceneElements a') = None
    \<and> trace a' = trace a @ issued a a'
    \<and> filter isStadiumCall (issued a a') = [] \<and> filter isStadiumTween (issued a a') = []
    \<and> stadiumTextVisible (appState a') = stadiumTextVisible (appState a)"
  using assms
proof (induction ds arbitrary: a)
  case Nil
  then show ?case by (simp add: issued_self)
next
  case (Cons d ds)
  obtain a1 where a1: "updateScaleBasedVisibility d a = Inr a1"
    using tick_defined [OF Cons.prems(1,2)] by blast
  have f: "camera (sceneElements a1) \<noteq> None" "controls (sceneElements a1) \<noteq> None"
    "stadium (sceneElements a1) = None"
    using tick_frame(1,2,6) [OF a1] Cons.prems by simp_all
  have t1: "trace a1 = trace a @ issued a a1"
    by (rule tick_extends [OF a1])
  have n1: "filter isStadiumCall (issued a a1) = []" "filter isStadiumTween (issued a a1) = []"
    using tick_no_stadium [OF a1 Cons.prems(3)] by simp_all
  obtain a' where a': "ticks ds a1 = Inr a'" "stadium (sceneElements a') = None"
    "trace a' = trace a1 @ issued a1 a'"
    "filter isStadiumCall (issued a1 a') = []" "filter isStadiumTween (issued a1 a') = []"
    "stadiumTextVisible (appState a') = stadiumTextVisible (appState a1)"
    using Cons.IH [OF f] by blast
  have i: "issued a a' = issued a a1 @ issued a1 a'" "trace a' = trace a @ issued a a'"
    by (rule issued_trans [OF t1 a'(3)])+
  have "ticks (d # ds) a = Inr a'"
    using a1 a'(1) by simp
  moreover have "stadiumTextVisible (appState a') = stadiumTextVisible (appState a)"
    using a'(6) tick_frame(8) [OF a1] by simp
  ultimately show ?case
    using a'(2) i n1 a'(4,5) by simp
qed

text \<open>
  C6. With the camera and the controls built and the stadium undefined, every sequence
  of ticks runs to its end without an exception; the stadium step is skipped in each
  scale change (no call and no tween for it), the stadium stays undefined and the flag
  \<^verbatim>\<open>stadiumTextVisible\<close> is not written. The sweep 3000, 1800, 300, 1800, 3000 is
  one such sequence.
\<close>

theorem stadium_absent_ticks_complete:
  assumes "camera (sceneElements a) \<noteq> None" and "controls (sceneElements a) \<noteq> None"
    and "stadium (sceneElements a) = None"
  shows "\<exists>a'. ticks ds a = Inr a' \<and> stadium (sceneElements a') = None
    \<and> trace a' = trace a @ issued a a'
    \<and> filter isStadiumCall (issued a a') = [] \<and> filter isStadiumTween (issued a a') = []
    \<and> stadiumTextVisible (appState a') = stadiumTextVisible (appState a)"
  using assms by (rule ticks_no_stadium)

theorem stadium_absent_ticks_complete_witness:
  "observe (\<lambda>a. (stadium (sceneElements a), filter isStadiumCall (trace a),
                 currentZoomScale (appState a)))
     (ticks [Num 3000, Num 1800, Num 300, Num 1800, Num 3000] (constructed True None))
   = Some (None, [], Sphere)
   \<and> stadium (sceneElements (constructed True None)) = None"
proof -
  let ?a = "constructed True None"
  let ?ds = "[Num 3000, Num 1800, Num 300, Num 1800, Num 3000]"
  have pre: "camera (sceneElements ?a) \<noteq> None" "controls (sceneElements ?a) \<noteq> None"
    "stadium (sceneElements ?a) = None"
    by (simp_all add: constructed_def)
  obtain a' where a': "ticks ?ds ?a = Inr a'" "stadium (sceneElements a') = None"
    "trace a' = trace ?a @ issued ?a a'" "filter isStadiumCall (issued ?a a') = []"
    using stadium_absent_ticks_complete [OF pre, of ?ds] by blast
  have "trace a' = issued ?a a'"
    using a'(3) by (simp add: constructed_def)
  moreover have "currentZoomScale (appState a') = Sphere"
    using a'(1)
    by (auto simp: classify_def split: sum.splits dest!: tick_frame(9))
  ultimately show ?thesis
    using a' by (simp add: observe_def constructed_def)
qed

section \<open>The duration of the transitions\<close>

text \<open>
  C5. Every visibility command issued on a scale change carries the duration 0.8: each
  event of a tick, call or tween, and for each of the three scene objects the call and
  every tween it starts, whether the object is shown or hidden (\<open>vis\<close> is either) and
  whether the engine is there or not.
\<close>

theorem transition_durations:
  assumes "updateScaleBasedVisibility d a = Inr a'"
  shows "list_all (\<lambda>e. eventDuration e = 0.8) (issued a a')
    \<and> filter isCall (Sphere_updateVisibility engine vis None)
        = [SphereUpdateVisibility vis 0.8]
    \<and> filter isCall (snd (updateStadiumVisibility engine st vis None))
        = [UpdateStadiumVisibility vis 0.8]
    \<and> filter isCall (snd (updateFloodlightIntensity engine ls vis None))
        = [UpdateFloodlightIntensity vis 0.8]
    \<and> list_all (\<lambda>e. eventDuration e = 0.8) (Sphere_updateVisibility engine vis None)
    \<and> list_all (\<lambda>e. eventDuration e = 0.8) (snd (updateStadiumVisibility engine st vis None))
    \<and> list_all (\<lambda>e. eventDuration e = 0.8)
         (snd (updateFloodlightIntensity engine ls vis None))"
  using tick_durations [OF assms] method_events(1,2,5,6,8,9) by simp

theorem transition_durations_witness:
  "map (map eventDuration) (batches [Num 1800, Num 3000] demoApp)
     = [[0.8, 0.8, 0.8, 0.8, 0.8], [0.8, 0.8, 0.8, 0.8]]
   \<and> map (filter isCall) (batches [Num 1800, Num 3000] demoApp)
     = [[SphereUpdateVisibility False 0.8, UpdateStadiumVisibility True 0.8],
        [SphereUpdateVisibility True 0.8, UpdateStadiumVisibility False 0.8]]"
proof -
  obtain a1 where a1: "updateScaleBasedVisibility (Num 1800) demoApp = Inr a1"
    using tick_defined [of demoApp "Num 1800"] by (auto simp: demoApp_def constructed_def)
  obtain a2 where a2: "updateScaleBasedVisibility (Num 3000) a1 = Inr a2"
    using tick_defined [of a1 "Num 3000"] tick_frame(1,2) [OF a1]
    by (auto simp: demoApp_def constructed_def)
  have d1: "list_all (\<lambda>e. eventDuration e = 0.8) (issued demoApp a1)"
    using transition_durations [OF a1] by simp
  have d2: "list_all (\<lambda>e. eventDuration e = 0.8) (issued a1 a2)"
    using transition_durations [OF a2] by simp
  have b: "batches [Num 1800, Num 3000] demoApp = [issued demoApp a1, issued a1 a2]"
    using a1 a2 by simp
  have l: "map length (batches [Num 1800, Num 3000] demoApp) = [5, 4]"
    by (simp add: model_defs)
  have "map eventDuration (issued demoApp a1) = [0.8, 0.8, 0.8, 0.8, 0.8]"
    using d1 l unfolding b
    by (auto simp: list_all_iff length_Suc_conv numeral_eq_Suc)
  moreover have "map eventDuration (issued a1 a2) = [0.8, 0.8, 0.8, 0.8]"
    using d2 l unfolding b
    by (auto simp: list_all_iff length_Suc_conv numeral_eq_Suc)
  moreover have "map (filter isCall) (batches [Num 1800, Num 3000] demoApp)
     = [[SphereUpdateVisibility False 0.8, UpdateStadiumVisibility True 0.8],
        [SphereUpdateVisibility True 0.8, UpdateStadiumVisibility False 0.8]]"
    by (simp add: model_defs)
  ultimately show ?thesis
    unfolding b by simp
qed

lemmas run_defs =
  model_defs animate_def controlsUpdate_def frameAt_def gsapComplete_def applyTween_def
  endMaterial_def endValue_def observe_def introOnComplete_def

text \<open>
  What the stadium does with that duration differs by direction. Shown, each material
  fades in over it; hidden, each material is set to opacity 0 within the tick and no
  tween is started. Once the stadium has faded in, the tick back to the sphere scale
  leaves it at opacity 0 at once.
\<close>

lemma stadium_hide_is_immediate:
  "observe (stadium \<circ> sceneElements)
     (run [Frame (frameAt (Num 1800) p), TweenComplete 4] demoApp)
     = Some (Some \<lparr>visible = True,
                   meshes = [\<lparr>mesh_visible = True, material = [\<lparr>opacity = 1\<rparr>]\<rparr>]\<rparr>)
   \<and> observe (stadium \<circ> sceneElements)
        (run [Frame (frameAt (Num 1800) p), TweenComplete 4, Frame (frameAt (Num 3000) q)]
           demoApp)
     = Some (Some \<lparr>visible = False,
                   meshes = [\<lparr>mesh_visible = False, material = [\<lparr>opacity = 0\<rparr>]\<rparr>]\<rparr>)
   \<and> observe (filter isStadiumTween \<circ> drop 5 \<circ> trace)
        (run [Frame (frameAt (Num 1800) p), TweenComplete 4, Frame (frameAt (Num 3000) q)]
           demoApp)
     = Some []"
  by (simp add: run_defs)

section \<open>The intro sequence\<close>

lemma fadeMaterials_no_engine: "snd (fadeMaterials False vis dur i j mats) = []"
  by (induction mats arbitrary: j) (auto simp: Let_def)

lemma traverseMeshes_no_engine: "snd (traverseMeshes False vis dur i ms) = []"
  by (induction ms arbitrary: i) (auto simp: Let_def fadeMaterials_no_engine)

lemma rampFloodlights_no_engine: "snd (rampFloodlights False m dur i lights) = []"
  by (induction lights arbitrary: i) (auto simp: Let_def)

lemma blocks_no_engine:
  assumes "\<not> gsap a"
  shows "list_all isCall (issued a (sphereBlock a))"
    and "list_all isCall (issued a (stadiumBlock a))"
    and "list_all isCall (issued a (detailBlock a))"
proof -
  show "list_all isCall (issued a (sphereBlock a))"
    using assms by (simp add: sphereBlock_issued Sphere_updateVisibility_def Let_def)
  show "list_all isCall (issued a (stadiumBlock a))"
    using assms
    by (cases "stadium (sceneElements a)")
       (simp_all add: stadiumBlock_issued updateStadiumVisibility_def Let_def
          traverseMeshes_no_engine)
  show "list_all isCall (issued a (detailBlock a))"
    using assms
    by (cases "(currentZoomScale (appState a) = Detail) \<noteq> stadiumDetailVisible (appState a)";
        cases "lightingSystem a")
       (simp_all add: detailBlock_issued updateFloodlightIntensity_def Let_def
          rampFloodlights_no_engine)
qed

lemma updateElementVisibility_no_engine:
  assumes "\<not> gsap a"
  shows "list_all isCall (issued a (updateElementVisibility a))"
proof -
  have "\<not> gsap (sphereBlock a)" "\<not> gsap (stadiumBlock (sphereBlock a))"
    using assms by (simp_all add: block_frame)
  then show ?thesis
    using blocks_no_engine(1) [OF assms] blocks_no_engine(2) [of "sphereBlock a"]
      blocks_no_engine(3) [of "stadiumBlock (sphereBlock a)"]
    by (simp add: updateElementVisibility_split)
qed

lemma tick_no_engine:
  assumes "updateScaleBasedVisibility d a = Inr a'" and "\<not> gsap a"
  shows "list_all isCall (issued a a')"
proof (cases "classify d = currentZoomScale (appState a)")
  case True
  then show ?thesis using tick_issued_same [OF assms(1)] by simp
next
  case False
  show ?thesis
    unfolding tick_issued_change [OF assms(1) False]
    using assms(2) by (intro updateElementVisibility_no_engine) simp
qed

lemma gsapComplete_only_calls:
  assumes "list_all isCall (trace a)"
  shows "gsapComplete i a = Inr a"
proof (cases "i < length (trace a)")
  case True
  then have "isCall (trace a ! i)"
    using assms by (simp add: list_all_length)
  then show ?thesis
    using True by (cases "trace a ! i") (simp_all add: gsapComplete_def)
next
  case False
  then show ?thesis by (simp add: gsapComplete_def)
qed

lemma animate_frame:
  assumes "camera (sceneElements a) = Some cam" and "controls (sceneElements a) \<noteq> None"
  shows "\<exists>a1 a'. updateScaleBasedVisibility (distanceTo f) a = Inr a1
    \<and> animate f a = Inr a'
    \<and> camera (sceneElements a') = Some (cam\<lparr>position := orbit f\<rparr>)
    \<and> controls (sceneElements a') = controls (sceneElements a)
    \<and> hasSeenIntroSequence (appState a') = hasSeenIntroSequence (appState a)
    \<and> gsap a' = gsap a \<and> trace a' = trace a1"
proof -
  obtain a1 where a1: "updateScaleBasedVisibility (distanceTo f) a = Inr a1"
    using tick_defined [of a "distanceTo f"] assms by auto
  have f1: "camera (sceneElements a1) = Some cam"
    "controls (sceneElements a1) = controls (sceneElements a)"
    "gsap a1 = gsap a"
    "hasSeenIntroSequence (appState a1) = hasSeenIntroSequence (appState a)"
    using tick_frame(1,2,3,7) [OF a1] assms(1) by simp_all
  define c where "c =
    (if isAnimationPlaying (appState a1) then
       (let time = dateNow f * 0.001 in
        case lightingSystem a1 of
          None \<Rightarrow> a1
        | Some ls \<Rightarrow>
            (if currentZoomScale (appState a1) = Detail then
               a1\<lparr>lightingSystem := Some (animateFloodlights time (mathRandom f) ls)\<rparr>
             else a1))
     else a1)"
  have fc: "sceneElements c = sceneElements a1" "appState c = appState a1"
    "gsap c = gsap a1" "trace c = trace a1"
    by (cases "lightingSystem a1"; simp add: c_def Let_def)+
  obtain ctl where ctl: "controls (sceneElements c) = Some ctl"
    using f1(2) fc(1) assms(2) by auto
  have "animate f a = Inr (controlsUpdate (orbit f) c)"
    using a1 ctl unfolding animate_def c_def by (simp add: Let_def)
  then show ?thesis
    using a1 f1 fc by (simp add: controlsUpdate_def)
qed

lemma run_no_engine:
  assumes "\<not> gsap a" and "list_all isCall (trace a)"
    and "camera (sceneElements a) = Some cam" and "controls (sceneElements a) \<noteq> None"
  shows "\<exists>a'. run inps a = Inr a'
    \<and> camera (sceneElements a') = Some (cam\<lparr>position := orbitAfter inps (position cam)\<rparr>)
    \<and> controls (sceneElements a') = controls (sceneElements a)
    \<and> hasSeenIntroSequence (appState a') = hasSeenIntroSequence (appState a)
    \<and> \<not> gsap a' \<and> list_all isCall (trace a')"
  using assms
proof (induction inps arbitrary: a cam)
  case Nil
  then show ?case by simp
next
  case (Cons inp inps)
  show ?case
  proof (cases inp)
    case (Frame f)
    obtain a1 a2 where a1: "updateScaleBasedVisibility (distanceTo f) a = Inr a1"
      and a2: "animate f a = Inr a2"
      "camera (sceneElements a2) = Some (cam\<lparr>position := orbit f\<rparr>)"
      "controls (sceneElements a2) = controls (sceneElements a)"
      "hasSeenIntroSequence (appState a2) = hasSeenIntroSequence (appState a)"
      "gsap a2 = gsap a" "trace a2 = trace a1"
      using animate_frame [OF Cons.prems(3,4), of f] by blast
    have calls: "list_all isCall (trace a2)"
      using tick_extends [OF a1] tick_no_engine [OF a1 Cons.prems(1)] Cons.prems(2) a2(6)
      by simp
    have pre: "\<not> gsap a2" "controls (sceneElements a2) \<noteq> None"
      using a2(3,5) Cons.prems(1,4) by simp_all
    obtain a' where a': "run inps a2 = Inr a'"
      "camera (sceneElements a')
        = Some (cam\<lparr>position := orbit f\<rparr>
                  \<lparr>position := orbitAfter inps (position (cam\<lparr>position := orbit f\<rparr>))\<rparr>)"
      "controls (sceneElements a') = controls (sceneElements a2)"
      "hasSeenIntroSequence (appState a') = hasSeenIntroSequence (appState a2)"
      "\<not> gsap a'" "list_all isCall (trace a')"
      using Cons.IH [OF pre(1) calls a2(2) pre(2)] by blast
    show ?thesis
      using Frame a2(1,3,4) a' by simp
  next
    case (TweenComplete i)
    have same: "step inp a = Inr a"
      using TweenComplete gsapComplete_only_calls [OF Cons.prems(2)] by simp
    obtain a' where a': "run inps a = Inr a'"
      "camera (sceneElements a') = Some (cam\<lparr>position := orbitAfter inps (position cam)\<rparr>)"
      "controls (sceneElements a') = controls (sceneElements a)"
      "hasSeenIntroSequence (appState a') = hasSeenIntroSequence (appState a)"
      "\<not> gsap a'" "list_all isCall (trace a')"
      using Cons.IH [OF Cons.prems] by blast
    show ?thesis
      using TweenComplete same a' by simp
  qed
qed

lemma isCall_no_camera_tween:
  "list_all isCall evs \<Longrightarrow> filter isCameraTween evs = [] \<and> filter isIntroTween evs = []"
  by (induction evs) (auto elim: isCall.elims)

text \<open>
  C8. Without the animation engine the intro sequence still turns rotate, zoom and pan
  off; it issues no camera animation and does not touch the camera, and it registers no
  completion callback. So in every run that follows, whatever the frames and whatever
  the engine is asked to finish, the controls stay off and \<^verbatim>\<open>hasSeenIntroSequence\<close>
  keeps its value; no camera tween and no intro tween is ever recorded, finishing a
  tween changes nothing, and the camera is only where the \<^verbatim>\<open>controls.update()\<close> calls
  of the frames put it.
\<close>

theorem intro_without_engine:
  assumes "\<not> gsap a" and "list_all isCall (trace a)"
    and "camera (sceneElements a) = Some cam" and "controls (sceneElements a) \<noteq> None"
  shows "\<exists>a'. startIntroSequence a = Inr a'
    \<and> controlsDisabled a' \<and> trace a' = trace a
    \<and> camera (sceneElements a') = Some cam \<and> appState a' = appState a
    \<and> (\<forall>inps. \<exists>a''. run inps a' = Inr a''
          \<and> controlsDisabled a''
          \<and> hasSeenIntroSequence (appState a'') = hasSeenIntroSequence (appState a)
          \<and> filter isCameraTween (trace a'') = []
          \<and> filter isIntroTween (trace a'') = []
          \<and> (\<forall>i. gsapComplete i a'' = Inr a'')
          \<and> camera (sceneElements a'')
              = Some (cam\<lparr>position := orbitAfter inps (position cam)\<rparr>))"
proof -
  obtain c where c: "controls (sceneElements a) = Some c"
    using assms(4) by blast
  define a' where "a' = a\<lparr>sceneElements := (sceneElements a)
      \<lparr>controls := Some (c\<lparr>enableRotate := False, enableZoom := False, enablePan := False\<rparr>)\<rparr>\<rparr>"
  have s: "startIntroSequence a = Inr a'"
    using assms(1) c by (simp add: startIntroSequence_def a'_def Let_def)
  have f: "controlsDisabled a'" "trace a' = trace a" "camera (sceneElements a') = Some cam"
    "appState a' = appState a" "\<not> gsap a'" "controls (sceneElements a') \<noteq> None"
    using assms by (simp_all add: a'_def controlsDisabled_def)
  have "\<exists>a''. run inps a' = Inr a''
          \<and> controlsDisabled a''
          \<and> hasSeenIntroSequence (appState a'') = hasSeenIntroSequence (appState a)
          \<and> filter isCameraTween (trace a'') = []
          \<and> filter isIntroTween (trace a'') = []
          \<and> (\<forall>i. gsapComplete i a'' = Inr a'')
          \<and> camera (sceneElements a'')
              = Some (cam\<lparr>position := orbitAfter inps (position cam)\<rparr>)" for inps
  proof -
    have calls: "list_all isCall (trace a')"
      using f(2) assms(2) by simp
    obtain a'' where r: "run inps a' = Inr a''"
      "camera (sceneElements a'') = Some (cam\<lparr>position := orbitAfter inps (position cam)\<rparr>)"
      "controls (sceneElements a'') = controls (sceneElements a')"
      "hasSeenIntroSequence (appState a'') = hasSeenIntroSequence (appState a')"
      "list_all isCall (trace a'')"
      using run_no_engine [OF f(5) calls f(3,6), of inps] by blast
    have "controlsDisabled a''"
      using f(1) r(3) by (simp add: controlsDisabled_def)
    moreover have "\<forall>i. gsapComplete i a'' = Inr a''"
      using gsapComplete_only_calls [OF r(5)] by simp
    ultimately show ?thesis
      using r f(4) isCall_no_camera_tween [OF r(5)] by simp
  qed
  then show ?thesis
    using s f by blast
qed

theorem intro_without_engine_witness:
  "observe (\<lambda>a. (controlsDisabled a, trace a, hasSeenIntroSequence (appState a)))
     (init False None) = Some (True, [], False)
   \<and> observe (\<lambda>a. (controlsDisabled a, filter isCameraTween (trace a),
                    hasSeenIntroSequence (appState a), camera (sceneElements a)))
       (andThen (init False None)
          (run [Frame (frameAt (Num 3000) (0, 251.16, 3992.11)), TweenComplete 0,
                Frame (frameAt (Num 300) (0, 18.84, 299.41))]))
     = Some (True, [], False, Some \<lparr>position = (0, 18.84, 299.41)\<rparr>)"
proof -
  let ?a = "constructed False None"
  let ?inps = "[Frame (frameAt (Num 3000) (0, 251.16, 3992.11)), TweenComplete 0,
                Frame (frameAt (Num 300) (0, 18.84, 299.41))]"
  have pre: "\<not> gsap ?a" "list_all isCall (trace ?a)"
    "camera (sceneElements ?a) = Some \<lparr>position = CONTROLS_START\<rparr>"
    "controls (sceneElements ?a) \<noteq> None"
    by (simp_all add: constructed_def)
  obtain a' where a': "startIntroSequence ?a = Inr a'" "controlsDisabled a'"
    "trace a' = trace ?a" "appState a' = appState ?a"
    and later: "\<forall>inps. \<exists>a''. run inps a' = Inr a''
          \<and> controlsDisabled a''
          \<and> hasSeenIntroSequence (appState a'') = hasSeenIntroSequence (appState ?a)
          \<and> filter isCameraTween (trace a'') = []
          \<and> filter isIntroTween (trace a'') = []
          \<and> (\<forall>i. gsapComplete i a'' = Inr a'')
          \<and> camera (sceneElements a'')
              = Some (\<lparr>position = CONTROLS_START\<rparr>
                        \<lparr>position := orbitAfter inps (position \<lparr>position = CONTROLS_START\<rparr>)\<rparr>)"
    using intro_without_engine [OF pre] by blast
  obtain a'' where a'': "run ?inps a' = Inr a''" "controlsDisabled a''"
    "hasSeenIntroSequence (appState a'') = hasSeenIntroSequence (appState ?a)"
    "filter isCameraTween (trace a'') = []"
    "camera (sceneElements a'')
      = Some (\<lparr>position = CONTROLS_START\<rparr>
                \<lparr>position := orbitAfter ?inps (position \<lparr>position = CONTROLS_START\<rparr>)\<rparr>)"
    using later by blast
  show ?thesis
    using a' a''
    by (simp add: init_def observe_def andThen_def constructed_def initialAppState_def
        frameAt_def)
qed

text \<open>
  C4, as the code has it. The completion callback sets \<^verbatim>\<open>hasSeenIntroSequence\<close> and
  turns the controls on again. The intro run does not read that flag: with the engine
  present every call of it turns the controls off and issues one camera tween, whatever
  the flag holds. The sequence runs once because \<^verbatim>\<open>init\<close> calls it once.
\<close>

theorem intro_runs_whenever_called:
  assumes "gsap a" and "camera (sceneElements a) \<noteq> None" and "controls (sceneElements a) \<noteq> None"
  shows "(\<exists>a'. startIntroSequence a = Inr a'
            \<and> controlsDisabled a' \<and> trace a' = trace a @ [GsapTo introTween]
            \<and> appState a' = appState a)
    \<and> (\<exists>a''. introOnComplete a = Inr a''
            \<and> hasSeenIntroSequence (appState a'') \<and> controlsEnabled a'')
    \<and> observe (filter isCameraTween \<circ> trace) (init True loaded) = Some [GsapTo introTween]"
proof -
  obtain c cam where c: "controls (sceneElements a) = Some c" "camera (sceneElements a) = Some cam"
    using assms(2,3) by blast
  have "\<exists>a'. startIntroSequence a = Inr a'
            \<and> controlsDisabled a' \<and> trace a' = trace a @ [GsapTo introTween]
            \<and> appState a' = appState a"
    using assms(1) c by (simp add: startIntroSequence_def Let_def controlsDisabled_def)
  moreover have "\<exists>a''. introOnComplete a = Inr a''
            \<and> hasSeenIntroSequence (appState a'') \<and> controlsEnabled a''"
    using c by (simp add: introOnComplete_def controlsEnabled_def)
  moreover have "observe (filter isCameraTween \<circ> trace) (init True loaded)
      = Some [GsapTo introTween]"
    by (simp add: init_def constructed_def startIntroSequence_def Let_def observe_def
        introTween_def)
  ultimately show ?thesis by blast
qed

theorem intro_runs_whenever_called_witness:
  "observe (\<lambda>a. (hasSeenIntroSequence (appState a), controlsEnabled a))
     (andThen (init True None) (gsapComplete 0)) = Some (True, True)
   \<and> observe (\<lambda>a. (hasSeenIntroSequence (appState a), controlsDisabled a, length (trace a)))
       (andThen (andThen (init True None) (gsapComplete 0)) startIntroSequence)
     = Some (True, True, 2)"
proof -
  obtain a1 where a1: "init True None = Inr a1"
    by (simp add: init_def constructed_def startIntroSequence_def Let_def)
  have t1: "trace a1 = [GsapTo introTween]" "gsap a1"
    "camera (sceneElements a1) \<noteq> None" "controls (sceneElements a1) \<noteq> None"
    using a1 by (auto simp: init_def constructed_def startIntroSequence_def Let_def)
  obtain a2 where a2: "gsapComplete 0 a1 = Inr a2"
    using t1 by (auto simp: gsapComplete_def introTween_def introOnComplete_def applyTween_def)
  have t2: "hasSeenIntroSequence (appState a2)" "controlsEnabled a2" "gsap a2"
    "camera (sceneElements a2) \<noteq> None" "controls (sceneElements a2) \<noteq> None"
    "trace a2 = [GsapTo introTween]"
    using a2 t1
    by (auto simp: gsapComplete_def introTween_def introOnComplete_def applyTween_def
        controlsEnabled_def split: option.splits)
  obtain a3 where a3: "startIntroSequence a2 = Inr a3" "controlsDisabled a3"
    "trace a3 = trace a2 @ [GsapTo introTween]" "appState a3 = appState a2"
    using intro_runs_whenever_called [OF t2(3,4,5)] by blast
  show ?thesis
    using a1 a2 a3 t2 by (simp add: andThen_def observe_def)
qed

lemmas intro_defs =
  init_def constructed_def initialAppState_def startIntroSequence_def introOnComplete_def
  gsapComplete_def applyTween_def endVector_def endValue_def introTween_def DETAIL_END_def
  INTRO_ZOOM_def SPHERE_START_def andThen_def observe_def controlsDisabled_def
  controlsEnabled_def Let_def

text \<open>
  The claim C4 as it is worded fails: a second run after the callback has set the flag,
  and likewise a second run while the first tween is in flight, issues a second camera
  tween and turns the controls off again.
\<close>

theorem intro_second_run_counterexample:
  "observe (hasSeenIntroSequence \<circ> appState) (andThen (init True None) (gsapComplete 0))
     = Some True
   \<and> observe (filter isCameraTween \<circ> trace)
        (andThen (andThen (init True None) (gsapComplete 0)) startIntroSequence)
     = Some [GsapTo introTween, GsapTo introTween]
   \<and> observe controlsDisabled
        (andThen (andThen (init True None) (gsapComplete 0)) startIntroSequence)
     = Some True
   \<and> observe (filter isCameraTween \<circ> trace) (andThen (init True None) startIntroSequence)
     = Some [GsapTo introTween, GsapTo introTween]"
  by (simp add: intro_defs)

end
